theory Spec2Isabelle
  imports Main "HOL-Library.Sublist" "HOL-Library.AList" "HOL-Library.Finite_Map"
    "HOL-Library.Monad_Syntax" "HOL-Library.Char_ord" "HOL-Library.List_Lexorder"
begin

section \<open>Errors\<close>

text \<open>
  Go errors are values with a message. The program builds them with \<^verbatim>\<open>fmt.Errorf\<close>, wraps
  them with \<^verbatim>\<open>errors.Wrap(cause, msg)\<close>, and receives API status errors, whose reason the
  predicates \<^verbatim>\<open>apierrors.IsNotFound\<close> and \<^verbatim>\<open>apierrors.IsGone\<close> test.
\<close>

datatype StatusReason = StatusReasonNotFound | StatusReasonGone | StatusReasonOther string

datatype error =
    Errorf string
  | Wrap error string
  | StatusError StatusReason string

text \<open>\<^verbatim>\<open>err.Error()\<close>: a wrapped error prints its message, a colon and the cause.\<close>

fun Error :: "error \<Rightarrow> string" where
  "Error (Errorf msg) = msg"
| "Error (Wrap cause msg) = msg @ '': '' @ Error cause"
| "Error (StatusError reason msg) = msg"

fun IsNotFound :: "error \<Rightarrow> bool" where
  "IsNotFound (StatusError StatusReasonNotFound msg) = True"
| "IsNotFound e = False"

fun IsGone :: "error \<Rightarrow> bool" where
  "IsGone (StatusError StatusReasonGone msg) = True"
| "IsGone e = False"

section \<open>Platform workarounds (package hacks)\<close>

subsection \<open>The OpenAPI schema of a CRD\<close>

text \<open>
  The schema types belong to the Kubernetes API library. A \<^verbatim>\<open>JSONSchemaProps\<close> has a
  \<^verbatim>\<open>Type\<close> string and sub-schemas in these fields: \<^verbatim>\<open>Items\<close> (one schema or an array of
  schemas), \<^verbatim>\<open>AllOf\<close>, \<^verbatim>\<open>OneOf\<close>, \<^verbatim>\<open>AnyOf\<close>, \<^verbatim>\<open>Not\<close>, \<^verbatim>\<open>Properties\<close>,
  \<^verbatim>\<open>AdditionalProperties\<close>, \<^verbatim>\<open>PatternProperties\<close>, \<^verbatim>\<open>Dependencies\<close>,
  \<^verbatim>\<open>AdditionalItems\<close> and \<^verbatim>\<open>Definitions\<close>. A pointer that may be nil is an option, a
  slice is a list and a map with string keys is a finite map. All the remaining fields
  (description, format, bounds, enumeration and so on) hold no schema; they are the
  component \<open>OtherFields\<close>.
\<close>

datatype 's JSONSchemaPropsOrArray =
  JSONSchemaPropsOrArray (ArraySchema: "'s option") (JSONSchemas: "'s list")

datatype 's JSONSchemaPropsOrBool =
  JSONSchemaPropsOrBool (Allows: bool) (BoolSchema: "'s option")

datatype 's JSONSchemaPropsOrStringArray =
  JSONSchemaPropsOrStringArray (DependencySchema: "'s option") (Property: "string list")

datatype 'a JSONSchemaProps = JSONSchemaProps
  (Type: string)
  (Items: "'a JSONSchemaProps JSONSchemaPropsOrArray option")
  (AllOf: "'a JSONSchemaProps list")
  (OneOf: "'a JSONSchemaProps list")
  (AnyOf: "'a JSONSchemaProps list")
  (Not': "'a JSONSchemaProps option")
  (Properties: "(string, 'a JSONSchemaProps) fmap")
  (AdditionalProperties: "'a JSONSchemaProps JSONSchemaPropsOrBool option")
  (PatternProperties: "(string, 'a JSONSchemaProps) fmap")
  (Dependencies: "(string, 'a JSONSchemaProps JSONSchemaPropsOrStringArray) fmap")
  (AdditionalItems: "'a JSONSchemaProps JSONSchemaPropsOrBool option")
  (Definitions: "(string, 'a JSONSchemaProps) fmap")
  (OtherFields: 'a)

subsection \<open>removeTypeObjectField\<close>

text \<open>
  The Go function overwrites the schema in place: it clears \<^verbatim>\<open>Type\<close> when it is
  \<^verbatim>\<open>"object"\<close> and then visits every sub-schema field. The model returns the schema after
  the call. A nil pointer is left alone (\<open>map_option\<close>), a slice element is copied,
  rewritten and stored back under its index (\<open>map\<close>), a map value is copied, rewritten
  and stored back under its key (\<open>fmmap\<close>).
\<close>

primrec removeTypeObjectField :: "'a JSONSchemaProps \<Rightarrow> 'a JSONSchemaProps" where
  "removeTypeObjectField (JSONSchemaProps type items allOf oneOf anyOf not' properties
       additionalProperties patternProperties dependencies additionalItems definitions other) =
     JSONSchemaProps
       (if type = ''object'' then '''' else type)
       (map_option (map_JSONSchemaPropsOrArray removeTypeObjectField) items)
       (map removeTypeObjectField allOf)
       (map removeTypeObjectField oneOf)
       (map removeTypeObjectField anyOf)
       (map_option removeTypeObjectField not')
       (fmmap removeTypeObjectField properties)
       (map_option (map_JSONSchemaPropsOrBool removeTypeObjectField) additionalProperties)
       (fmmap removeTypeObjectField patternProperties)
       (fmmap (map_JSONSchemaPropsOrStringArray removeTypeObjectField) dependencies)
       (map_option (map_JSONSchemaPropsOrBool removeTypeObjectField) additionalItems)
       (fmmap removeTypeObjectField definitions)
       other"


text \<open>The two helpers of the source, for a slice and for a map of schemas.\<close>

definition removeTypeObjectFieldFromArray ::
  "'a JSONSchemaProps list \<Rightarrow> 'a JSONSchemaProps list" where
  "removeTypeObjectFieldFromArray array = map removeTypeObjectField array"

definition removeTypeObjectFieldFromMap ::
  "(string, 'a JSONSchemaProps) fmap \<Rightarrow> (string, 'a JSONSchemaProps) fmap" where
  "removeTypeObjectFieldFromMap m = fmmap removeTypeObjectField m"

subsection \<open>Sub-schema positions\<close>

text \<open>
  A step names one place where a schema holds a sub-schema; a path is a list of steps
  from the root. \<open>subschemaAt\<close> follows a path and returns the node it reaches, if there
  is one. \<open>subschemas\<close> is the set of all direct sub-schemas of a node, taken over every
  field of the type.
\<close>

datatype step =
    InItemsSchema | InItemsJSONSchemas nat
  | InAllOf nat | InOneOf nat | InAnyOf nat | InNot
  | InProperties string | InAdditionalProperties | InPatternProperties string
  | InDependencies string | InAdditionalItems | InDefinitions string

definition index :: "'x list \<Rightarrow> nat \<Rightarrow> 'x option" where
  "index xs i = (if i < length xs then Some (xs ! i) else None)"

fun child :: "'a JSONSchemaProps \<Rightarrow> step \<Rightarrow> 'a JSONSchemaProps option" where
  "child s InItemsSchema = Option.bind (Items s) ArraySchema"
| "child s (InItemsJSONSchemas i) = Option.bind (Items s) (\<lambda>a. index (JSONSchemas a) i)"
| "child s (InAllOf i) = index (AllOf s) i"
| "child s (InOneOf i) = index (OneOf s) i"
| "child s (InAnyOf i) = index (AnyOf s) i"
| "child s InNot = Not' s"
| "child s (InProperties k) = fmlookup (Properties s) k"
| "child s InAdditionalProperties = Option.bind (AdditionalProperties s) BoolSchema"
| "child s (InPatternProperties k) = fmlookup (PatternProperties s) k"
| "child s (InDependencies k) = Option.bind (fmlookup (Dependencies s) k) DependencySchema"
| "child s InAdditionalItems = Option.bind (AdditionalItems s) BoolSchema"
| "child s (InDefinitions k) = fmlookup (Definitions s) k"

fun subschemaAt :: "'a JSONSchemaProps \<Rightarrow> step list \<Rightarrow> 'a JSONSchemaProps option" where
  "subschemaAt s [] = Some s"
| "subschemaAt s (st # path) = Option.bind (child s st) (\<lambda>c. subschemaAt c path)"


text \<open>
  Everything a node holds except its \<^verbatim>\<open>Type\<close> and the contents of its sub-schemas (which
  are nodes of their own): the other fields, which optional parts are present, the
  lengths of the slices, the keys of the maps, the \<^verbatim>\<open>Allows\<close> flags and the property lists
  of the dependencies.
\<close>

definition ownFields where
  "ownFields s =
     (OtherFields s,
      map_option (map_JSONSchemaPropsOrArray (\<lambda>_. ())) (Items s),
      length (AllOf s), length (OneOf s), length (AnyOf s),
      map_option (\<lambda>_. ()) (Not' s),
      fmdom (Properties s),
      map_option (map_JSONSchemaPropsOrBool (\<lambda>_. ())) (AdditionalProperties s),
      fmdom (PatternProperties s),
      fmmap (map_JSONSchemaPropsOrStringArray (\<lambda>_. ())) (Dependencies s),
      map_option (map_JSONSchemaPropsOrBool (\<lambda>_. ())) (AdditionalItems s),
      fmdom (Definitions s))"

definition subschemas :: "'a JSONSchemaProps \<Rightarrow> 'a JSONSchemaProps set" where
  "subschemas s =
     (\<Union>a \<in> set_option (Items s). set_JSONSchemaPropsOrArray a)
     \<union> set (AllOf s) \<union> set (OneOf s) \<union> set (AnyOf s) \<union> set_option (Not' s)
     \<union> fmran' (Properties s)
     \<union> (\<Union>b \<in> set_option (AdditionalProperties s). set_JSONSchemaPropsOrBool b)
     \<union> fmran' (PatternProperties s)
     \<union> (\<Union>d \<in> fmran' (Dependencies s). set_JSONSchemaPropsOrStringArray d)
     \<union> (\<Union>b \<in> set_option (AdditionalItems s). set_JSONSchemaPropsOrBool b)
     \<union> fmran' (Definitions s)"

subsection \<open>The CRD and the exported functions\<close>

text \<open>
  Of a \<^verbatim>\<open>CustomResourceDefinition\<close> the function reads \<^verbatim>\<open>Spec.Validation\<close> and its
  \<^verbatim>\<open>OpenAPIV3Schema\<close>, both pointers.
\<close>

record 'a CustomResourceValidation =
  OpenAPIV3Schema :: "'a JSONSchemaProps option"

record ('a, 'o) CustomResourceDefinitionSpec =
  Validation :: "'a CustomResourceValidation option"
  OtherSpecFields :: 'o

record ('a, 'o, 'm) CustomResourceDefinition =
  ObjectMeta :: 'm
  Spec :: "('a, 'o) CustomResourceDefinitionSpec"

text \<open>
  RemoveTypeObjectFieldsFromCRDSchema returns the error (if any) together with the CRD
  as it is after the call.
\<close>

definition RemoveTypeObjectFieldsFromCRDSchema ::
  "('a, 'o, 'm) CustomResourceDefinition \<Rightarrow> error option \<times> ('a, 'o, 'm) CustomResourceDefinition"
where
  "RemoveTypeObjectFieldsFromCRDSchema crd =
     (case Validation (Spec crd) of
        None \<Rightarrow>
          (Some (Errorf ''Could not remove type:object fields from CRD schema as no spec.validation.openAPIV3Schema exists''), crd)
      | Some validation \<Rightarrow>
          (case OpenAPIV3Schema validation of
             None \<Rightarrow>
               (Some (Errorf ''Could not remove type:object fields from CRD schema as no spec.validation.openAPIV3Schema exists''), crd)
           | Some schema \<Rightarrow>
               (None,
                crd\<lparr>Spec := (Spec crd)\<lparr>Validation :=
                  Some (validation\<lparr>OpenAPIV3Schema := Some (removeTypeObjectField schema)\<rparr>)\<rparr>\<rparr>)))"

text \<open>\<^verbatim>\<open>strings.Contains(s, substr)\<close>: \<open>substr\<close> starts at some position of \<open>s\<close>.\<close>

fun Contains :: "string \<Rightarrow> string \<Rightarrow> bool" where
  "Contains [] substr = (substr = [])"
| "Contains (c # s) substr = (prefix substr (c # s) \<or> Contains s substr)"

definition rejectionPhrase :: string where
  \<open>rejectionPhrase =
     ''must only have "properties", "required" or "description" at the root if the status subresource is enabled''\<close>

definition IsTypeObjectProblemInCRDSchemas :: "error option \<Rightarrow> bool" where
  "IsTypeObjectProblemInCRDSchemas err =
     (case err of None \<Rightarrow> False | Some e \<Rightarrow> Contains (Error e) rejectionPhrase)"

subsection \<open>Example inputs\<close>

definition leaf :: "string \<Rightarrow> unit JSONSchemaProps" where
  "leaf t = JSONSchemaProps t None [] [] [] None fmempty None fmempty fmempty None fmempty ()"

definition exampleSchema :: "unit JSONSchemaProps" where
  "exampleSchema =
     JSONSchemaProps ''object''
       (Some (JSONSchemaPropsOrArray (Some (leaf ''object'')) [leaf ''string'', leaf ''object'']))
       [leaf ''object''] [] []
       (Some (leaf ''object''))
       (fmupd ''spec''
          (JSONSchemaProps ''object'' None [] [] [] None
             (fmupd ''replicas'' (leaf ''integer'') fmempty)
             (Some (JSONSchemaPropsOrBool True (Some (leaf ''object''))))
             fmempty fmempty None fmempty ())
          fmempty)
       None fmempty
       (fmupd ''a'' (JSONSchemaPropsOrStringArray (Some (leaf ''object'')) [''b'']) fmempty)
       None fmempty ()"

definition exampleValidation :: "unit CustomResourceValidation" where
  "exampleValidation = \<lparr>OpenAPIV3Schema = Some exampleSchema\<rparr>"

definition exampleCRD :: "(unit, unit, string) CustomResourceDefinition" where
  "exampleCRD =
     \<lparr>ObjectMeta = ''servicemeshcontrolplanes.maistra.io'',
      Spec = \<lparr>Validation = Some exampleValidation, OtherSpecFields = ()\<rparr>\<rparr>"

definition exampleCRDNoSchema :: "(unit, unit, string) CustomResourceDefinition" where
  "exampleCRDNoSchema =
     \<lparr>ObjectMeta = ''servicemeshcontrolplanes.maistra.io'',
      Spec = \<lparr>Validation = Some \<lparr>OpenAPIV3Schema = None\<rparr>, OtherSpecFields = ()\<rparr>\<rparr>"

definition exampleRejection :: error where
  \<open>exampleRejection =
     StatusError (StatusReasonOther ''Invalid'')
       ''spec.validation.openAPIV3Schema: Invalid value: must only have "properties", "required" or "description" at the root if the status subresource is enabled''\<close>

section \<open>Install ordering (reconciler.go, getChartsInInstallationOrder)\<close>

text \<open>
  \<^verbatim>\<open>orderedCharts\<close> is the package-level table of chart groups that have to be installed
  in the given order.
\<close>

definition orderedCharts :: "string list list" where
  "orderedCharts =
     [[''istio''],
      [''istio/charts/security''],
      [''istio/charts/prometheus''],
      [''istio/charts/tracing''],
      [''istio/charts/galley''],
      [''istio/charts/mixer'', ''istio/charts/pilot'', ''istio/charts/gateways'',
       ''istio/charts/sidecarInjectorWebhook''],
      [''istio/charts/grafana''],
      [''istio/charts/kiali'']]"

text \<open>\<^verbatim>\<open>strings.HasPrefix(s, prefix)\<close> of the Go standard library.\<close>

definition HasPrefix :: "string \<Rightarrow> string \<Rightarrow> bool" where
  "HasPrefix s p = prefix p s"

text \<open>
  The renderings are a Go map from chart identifier to manifests, here a partial function
  (a nil map reads like an empty one). The function has three loops, each threading the
  result slice \<^verbatim>\<open>charts\<close> and the set \<^verbatim>\<open>seen\<close>.

  The inner loop of the first phase walks one predefined group and collects the charts
  that are keys of the renderings into \<^verbatim>\<open>chartsToDeploy\<close>.
\<close>

fun orderedInner ::
  "(string \<rightharpoonup> 'm) \<Rightarrow> string list \<Rightarrow> string list \<Rightarrow> string set \<Rightarrow> string list \<times> string set"
where
  "orderedInner renderings [] chartsToDeploy seen = (chartsToDeploy, seen)"
| "orderedInner renderings (chart # chartSet) chartsToDeploy seen =
     (if renderings chart \<noteq> None
      then orderedInner renderings chartSet (chartsToDeploy @ [chart]) (insert chart seen)
      else orderedInner renderings chartSet chartsToDeploy seen)"

text \<open>The outer loop of the first phase appends each non-empty filtered group.\<close>

fun orderedOuter ::
  "(string \<rightharpoonup> 'm) \<Rightarrow> string list list \<Rightarrow> string list list \<Rightarrow> string set
    \<Rightarrow> string list list \<times> string set"
where
  "orderedOuter renderings [] charts seen = (charts, seen)"
| "orderedOuter renderings (chartSet # rest) charts seen =
     (case orderedInner renderings chartSet [] seen of
        (chartsToDeploy, seen') \<Rightarrow>
          orderedOuter renderings rest
            (if length chartsToDeploy > 0 then charts @ [chartsToDeploy] else charts) seen')"

text \<open>
  The second and third loops range over the renderings map. Go leaves the iteration
  order of a map unspecified and chooses it anew for every \<^verbatim>\<open>range\<close>, so each loop
  receives its own enumeration of the keys.
\<close>

fun istioLoop ::
  "string list \<Rightarrow> string list list \<Rightarrow> string set \<Rightarrow> string list list \<times> string set"
where
  "istioLoop [] charts seen = (charts, seen)"
| "istioLoop (chart # rest) charts seen =
     (if HasPrefix chart ''istio/'' \<and> chart \<notin> seen
      then istioLoop rest (charts @ [[chart]]) (insert chart seen)
      else istioLoop rest charts seen)"

fun otherLoop :: "string list \<Rightarrow> string list list \<Rightarrow> string set \<Rightarrow> string list list" where
  "otherLoop [] charts seen = charts"
| "otherLoop (chart # rest) charts seen =
     (if chart \<notin> seen then otherLoop rest (charts @ [[chart]]) seen
      else otherLoop rest charts seen)"

definition getChartsInInstallationOrder ::
  "(string \<rightharpoonup> 'm) \<Rightarrow> string list \<Rightarrow> string list \<Rightarrow> string list list"
where
  "getChartsInInstallationOrder renderings keys1 keys2 =
     (case orderedOuter renderings orderedCharts [] {} of
        (charts, seen) \<Rightarrow>
          (case istioLoop keys1 charts seen of
             (charts', seen') \<Rightarrow> otherLoop keys2 charts' seen'))"

text \<open>An enumeration of a Go map's keys: every key once, in some order.\<close>

definition rangeOrder :: "(string \<rightharpoonup> 'm) \<Rightarrow> string list \<Rightarrow> bool" where
  "rangeOrder renderings keys = (distinct keys \<and> set keys = dom renderings)"

text \<open>
  The install plan in the words of the specification: the predefined groups filtered to
  the rendered charts, without the empty ones; then the remaining charts with prefix
  \<^verbatim>\<open>istio/\<close>, one group each; then the charts still remaining, one group each.
\<close>

definition installPlan :: "(string \<rightharpoonup> 'm) \<Rightarrow> string list \<Rightarrow> string list \<Rightarrow> string list list" where
  "installPlan renderings keys1 keys2 =
     filter (\<lambda>g. g \<noteq> []) (map (filter (\<lambda>c. c \<in> dom renderings)) orderedCharts)
     @ map (\<lambda>c. [c])
         (filter (\<lambda>c. prefix ''istio/'' c \<and> c \<notin> set (concat orderedCharts)) keys1)
     @ map (\<lambda>c. [c])
         (filter (\<lambda>c. \<not> prefix ''istio/'' c \<and> c \<notin> set (concat orderedCharts)) keys2)"

text \<open>The renderings of the specification's example (the manifests do not matter).\<close>

definition exampleRenderings :: "string \<rightharpoonup> unit" where
  "exampleRenderings =
     [''istio'' \<mapsto> (), ''istio/charts/kiali'' \<mapsto> (), ''istio/charts/pilot'' \<mapsto> (),
      ''istio/charts/mixer'' \<mapsto> (), ''maistra-threescale/charts/foo'' \<mapsto> ()]"

definition exampleKeys :: "string list" where
  "exampleKeys =
     [''maistra-threescale/charts/foo'', ''istio/charts/pilot'', ''istio'',
      ''istio/charts/kiali'', ''istio/charts/mixer'']"

definition exampleKeys' :: "string list" where
  "exampleKeys' =
     [''istio/charts/mixer'', ''istio/charts/kiali'', ''maistra-threescale/charts/foo'',
      ''istio'', ''istio/charts/pilot'']"

section \<open>Helm values (reconciler.go, mergeValues)\<close>

text \<open>
  Helm values are Go maps \<^verbatim>\<open>map[string]interface{}\<close>: a value is a string, a boolean, a
  number, an array, or again a map. A map is written as the list of its entries; the keys
  of a Go map are distinct, and \<open>map_of\<close> reads an entry. For the \<^verbatim>\<open>input\<close> argument the
  list order is the order in which \<^verbatim>\<open>range\<close> visits the keys. A nil map is the empty
  list: the function replaces a nil \<^verbatim>\<open>base\<close> by a fresh empty map before writing to it.
\<close>

datatype val =
    StringVal string
  | BoolVal bool
  | NumberVal int
  | ArrayVal "val list"
  | MapVal "(string \<times> val) list"

type_synonym valueMap = "(string \<times> val) list"

text \<open>
  One loop iteration per entry of \<^verbatim>\<open>input\<close>. A key that \<^verbatim>\<open>base\<close> lacks is stored with the
  input's value. For a key that both have, the two type assertions decide: only when the
  value in \<^verbatim>\<open>base\<close> is a map, and the input's value is a map as well, the entry becomes
  the merge of the two; in every other case nothing is written.
\<close>

fun mergeValues :: "valueMap \<Rightarrow> valueMap \<Rightarrow> valueMap" where
  "mergeValues base [] = base"
| "mergeValues base ((key, v) # input) =
     (case map_of base key of
        None \<Rightarrow> mergeValues (AList.update key v base) input
      | Some b \<Rightarrow>
          (case b of
             MapVal baseKeyAsMap \<Rightarrow>
               (case v of
                  MapVal inputAsMap \<Rightarrow>
                    mergeValues
                      (AList.update key (MapVal (mergeValues baseKeyAsMap inputAsMap)) base)
                      input
                | _ \<Rightarrow> mergeValues base input)
           | _ \<Rightarrow> mergeValues base input))"


text \<open>Reading a nested field by its path of keys.\<close>

fun getPath :: "valueMap \<Rightarrow> string list \<Rightarrow> val option" where
  "getPath m [] = Some (MapVal m)"
| "getPath m (k # path) =
     (case map_of m k of
        None \<Rightarrow> None
      | Some v \<Rightarrow> (if path = [] then Some v
                   else (case v of MapVal m' \<Rightarrow> getPath m' path | _ \<Rightarrow> None)))"

definition isMap :: "val \<Rightarrow> bool" where
  "isMap v = (case v of MapVal m \<Rightarrow> True | _ \<Rightarrow> False)"

text \<open>
  The merged entry for one key in the words of the specification: an absent input key
  leaves the base entry; a key absent from the base is copied; a key of both is merged
  when both values are maps and keeps the base value otherwise.
\<close>

definition mergedEntry :: "val option \<Rightarrow> val option \<Rightarrow> val option" where
  "mergedEntry b v =
     (case v of
        None \<Rightarrow> b
      | Some value \<Rightarrow>
          (case b of
             None \<Rightarrow> Some value
           | Some (MapVal baseMap) \<Rightarrow>
               (case value of
                  MapVal inputMap \<Rightarrow> Some (MapVal (mergeValues baseMap inputMap))
                | _ \<Rightarrow> b)
           | _ \<Rightarrow> b))"

text \<open>The example of the specification.\<close>

definition exBase :: valueMap where
  "exBase = [(''a'', NumberVal 1), (''b'', MapVal [(''x'', NumberVal 1)])]"
definition exInput :: valueMap where
  "exInput = [(''b'', MapVal [(''x'', NumberVal 2), (''y'', NumberVal 2)]), (''c'', NumberVal 3)]"

section \<open>Control-plane reconciler (reconciler.go): data\<close>

subsection \<open>Specs and Helm value accessors\<close>

text \<open>
  Of a \<^verbatim>\<open>v1.ControlPlaneSpec\<close> the reconciler reads and writes the version, the template
  name and the two value trees; \<^verbatim>\<open>Istio\<close> and \<^verbatim>\<open>ThreeScale\<close> are pointers to
  \<^verbatim>\<open>HelmValues\<close>.
\<close>

record ControlPlaneSpec =
  Version :: string
  Template :: string
  Istio :: "valueMap option"
  ThreeScale :: "valueMap option"

text \<open>
  Modelled from the spec: the accessors of \<^verbatim>\<open>HelmValues\<close> (package v1, outside the given
  sources). \<^verbatim>\<open>GetContent\<close> is the underlying map (nil for a nil pointer),
  \<^verbatim>\<open>NewHelmValues\<close> wraps a map, \<^verbatim>\<open>GetString\<close> reads the string at a field path (the
  empty string when the field is absent or no string; the callers here drop the other
  two results), \<^verbatim>\<open>SetField\<close> stores a value at a field path, creating the maps on the way.
  A field path such as \<^verbatim>\<open>global.tag\<close> is given as the list of its segments.
\<close>

definition GetContent :: "valueMap option \<Rightarrow> valueMap" where
  "GetContent h = (case h of None \<Rightarrow> [] | Some m \<Rightarrow> m)"

definition NewHelmValues :: "valueMap \<Rightarrow> valueMap option" where
  "NewHelmValues m = Some m"

definition GetString :: "valueMap option \<Rightarrow> string list \<Rightarrow> string" where
  "GetString h path =
     (case getPath (GetContent h) path of Some (StringVal s) \<Rightarrow> s | _ \<Rightarrow> '''')"

fun setPath :: "valueMap \<Rightarrow> string list \<Rightarrow> val \<Rightarrow> valueMap option" where
  "setPath m [] v = None"
| "setPath m [k] v = Some (AList.update k v m)"
| "setPath m (k # path) v =
     (case map_of m k of
        None \<Rightarrow> map_option (\<lambda>m'. AList.update k (MapVal m') m) (setPath [] path v)
      | Some (MapVal sub) \<Rightarrow> map_option (\<lambda>m'. AList.update k (MapVal m') m) (setPath sub path v)
      | Some _ \<Rightarrow> None)"

definition SetField :: "valueMap option \<Rightarrow> string list \<Rightarrow> val \<Rightarrow> valueMap option \<times> error option" where
  "SetField h path v =
     (case h of
        None \<Rightarrow> (None, Some (Errorf ''nil HelmValues''))
      | Some m \<Rightarrow>
          (case setPath m path v of
             None \<Rightarrow> (h, Some (Errorf ''field path does not lead through maps''))
           | Some m' \<Rightarrow> (Some m', None)))"

text \<open>Modelled from the spec: \<^verbatim>\<open>v1.DefaultTemplate\<close>, the well-known default template name.\<close>

definition DefaultTemplate :: string where
  "DefaultTemplate = ''default''"

subsection \<open>Status and conditions\<close>

datatype ConditionStatus = ConditionStatusTrue | ConditionStatusFalse | ConditionStatusUnknown

datatype ConditionType = ConditionTypeInstalled | ConditionTypeReconciled | ConditionTypeReady

record Condition =
  CondType :: ConditionType
  CondStatus :: ConditionStatus
  Reason :: string
  Message :: string

record ComponentStatus =
  Resource :: string
  ComponentConditions :: "Condition list"

record ControlPlaneStatus =
  Conditions :: "Condition list"
  ComponentStatuses :: "ComponentStatus list"
  ObservedGeneration :: int
  ReconciledVersion :: string
  LastAppliedConfiguration :: ControlPlaneSpec

text \<open>The condition reasons and event reasons, with the strings of the interface.\<close>

definition ConditionReasonReconcileError :: string where
  "ConditionReasonReconcileError = ''ReconcileError''"
definition ConditionReasonProbeError :: string where
  "ConditionReasonProbeError = ''ProbeError''"
definition ConditionReasonPausingInstall :: string where
  "ConditionReasonPausingInstall = ''PausingInstall''"
definition ConditionReasonPausingUpdate :: string where
  "ConditionReasonPausingUpdate = ''PausingUpdate''"
definition ConditionReasonUpdateSuccessful :: string where
  "ConditionReasonUpdateSuccessful = ''UpdateSuccessful''"
definition ConditionReasonInstallSuccessful :: string where
  "ConditionReasonInstallSuccessful = ''InstallSuccessful''"
definition ConditionReasonSpecUpdated :: string where
  "ConditionReasonSpecUpdated = ''SpecUpdated''"
definition ConditionReasonResourceCreated :: string where
  "ConditionReasonResourceCreated = ''ResourceCreated''"

definition eventReasonInstalling :: string where "eventReasonInstalling = ''Installing''"
definition eventReasonPausingInstall :: string where "eventReasonPausingInstall = ''PausingInstall''"
definition eventReasonPausingUpdate :: string where "eventReasonPausingUpdate = ''PausingUpdate''"
definition eventReasonInstalled :: string where "eventReasonInstalled = ''Installed''"
definition eventReasonUpdating :: string where "eventReasonUpdating = ''Updating''"
definition eventReasonUpdated :: string where "eventReasonUpdated = ''Updated''"
definition eventReasonPruning :: string where "eventReasonPruning = ''Pruning''"

text \<open>
  Modelled from the spec: the accessors of package status (outside the given sources).
  \<^verbatim>\<open>GetCondition\<close> returns the condition of a type, with status unknown when there
  is none; \<^verbatim>\<open>SetCondition\<close> replaces the condition of that type or adds it;
  \<^verbatim>\<open>FindComponentByName\<close> returns the component status with that resource name, if
  any; \<^verbatim>\<open>NewComponentStatus\<close> is a component status without conditions.
\<close>

definition getCond :: "Condition list \<Rightarrow> ConditionType \<Rightarrow> Condition" where
  "getCond cs t =
     (case find (\<lambda>c. CondType c = t) cs of
        Some c \<Rightarrow> c
      | None \<Rightarrow> \<lparr>CondType = t, CondStatus = ConditionStatusUnknown, Reason = '''', Message = ''''\<rparr>)"

definition setCond :: "Condition list \<Rightarrow> Condition \<Rightarrow> Condition list" where
  "setCond cs c =
     (if \<exists>d \<in> set cs. CondType d = CondType c
      then map (\<lambda>d. if CondType d = CondType c then c else d) cs
      else cs @ [c])"

definition GetCondition :: "ControlPlaneStatus \<Rightarrow> ConditionType \<Rightarrow> Condition" where
  "GetCondition s t = getCond (Conditions s) t"

definition SetCondition :: "ControlPlaneStatus \<Rightarrow> Condition \<Rightarrow> ControlPlaneStatus" where
  "SetCondition s c = s\<lparr>Conditions := setCond (Conditions s) c\<rparr>"

definition FindComponentByName :: "ControlPlaneStatus \<Rightarrow> string \<Rightarrow> ComponentStatus option" where
  "FindComponentByName s name = find (\<lambda>c. Resource c = name) (ComponentStatuses s)"

definition NewComponentStatus :: ComponentStatus where
  "NewComponentStatus = \<lparr>Resource = '''', ComponentConditions = []\<rparr>"

subsection \<open>The instance, the reconciler and its surroundings\<close>

record ServiceMeshControlPlane =
  InstanceName :: string
  InstanceNamespace :: string
  Generation :: int
  SpecVersion :: string
  InstanceStatus :: ControlPlaneStatus

text \<open>
  Every call that leaves the reconciler (cluster client, event recorder, chart
  rendering, bootstrap installers, image strategy, the helpers of other files) is written
  to a log, in order.
\<close>

datatype call =
    CallSetImageValues string ControlPlaneSpec
  | CallGetImageStream string string
  | CallGetInstance string string
  | CallPatchStatus ControlPlaneStatus
  | CallEvent string string string
  | CallRenderCharts string
  | CallGetNamespace string
  | CallUpdateNamespace string "(string \<times> string) list"
  | CallInstallCRDs string
  | CallInstallCNI
  | CallIsCNIReady
  | CallReconcileRBAC
  | CallCalculateComponentReadiness "string set"
  | CallProcessComponentManifests string
  | CallPrune string
  | CallUpdateReadinessStatus
  | CallUpdateControlPlaneConditions "error option"
  | CallSleep

text \<open>
  The session object. \<^verbatim>\<open>renderings\<close> is a Go map that is nil until the charts are
  rendered; \<^verbatim>\<open>waitForComponents\<close> is a string set; of \<^verbatim>\<open>cniConfig\<close> only \<^verbatim>\<open>Enabled\<close> is
  read. The owner references, which are stored and not read here, are left out.
\<close>

record reconciler =
  Instance :: ServiceMeshControlPlane
  Status :: ControlPlaneStatus
  meshGeneration :: string
  renderings :: "(string \<rightharpoonup> string list) option"
  waitForComponents :: "string set"
  cniEnabled :: bool
  calls :: "call list"

text \<open>
  What the surroundings answer. The answer to a call may depend on everything that was
  called before, so each answer is a function of the log at the time of the call.
  \<^verbatim>\<open>renderCharts\<close> stands here with its results only: its error, the last applied
  configuration it stores and the renderings it stores on success; its parts are
  modelled on their own below. \<^verbatim>\<open>rangeKeys\<close> gives the orders in which the two
  \<^verbatim>\<open>range\<close> loops of getChartsInInstallationOrder visit the renderings.
\<close>

record cluster =
  ParseVersion :: "string \<Rightarrow> error + string"
  renderCharts ::
    "call list \<Rightarrow> string \<Rightarrow> ServiceMeshControlPlane
      \<Rightarrow> error option \<times> ControlPlaneSpec \<times> (string \<rightharpoonup> string list)"
  getNamespace :: "call list \<Rightarrow> string \<Rightarrow> error + (string \<times> string) list"
  updateNamespace :: "call list \<Rightarrow> string \<Rightarrow> (string \<times> string) list \<Rightarrow> error option"
  CurrentReconciledVersion :: "int \<Rightarrow> string"
  InstallCRDs :: "call list \<Rightarrow> string \<Rightarrow> error option"
  InstallCNI :: "call list \<Rightarrow> error option"
  isCNIReady :: "call list \<Rightarrow> bool"
  reconcileRBAC :: "call list \<Rightarrow> error option"
  calculateComponentReadiness :: "call list \<Rightarrow> string set \<Rightarrow> string set \<times> error option"
  processComponentManifests :: "call list \<Rightarrow> string \<Rightarrow> bool \<times> error option"
  prune :: "call list \<Rightarrow> string \<Rightarrow> error option"
  updateReadinessStatus ::
    "call list \<Rightarrow> ControlPlaneStatus \<Rightarrow> ControlPlaneStatus \<times> error option"
  updateControlPlaneConditions :: "ControlPlaneStatus \<Rightarrow> error option \<Rightarrow> ControlPlaneStatus"
  getInstance :: "call list \<Rightarrow> error option"
  patchStatus :: "call list \<Rightarrow> ControlPlaneStatus \<Rightarrow> error option"
  rangeKeys :: "call list \<Rightarrow> (string \<rightharpoonup> string list) \<Rightarrow> string list \<times> string list"

text \<open>
  The template directories and the image sources. A template file is absent (\<open>None\<close>),
  unparsable, or holds a spec. \<^verbatim>\<open>OAuthProxyConfig\<close> is the process-wide
  \<^verbatim>\<open>common.Config.OAuthProxy\<close>.
\<close>

record OAuthProxyConfig =
  OAuthProxyQuery :: bool
  OAuthProxyName :: string
  OAuthProxyNamespace :: string
  OAuthProxyTag :: string
  OAuthProxyImage :: string

record NamedTagEventList =
  TagName :: string
  DockerImageReferences :: "string list"

record ImageStream =
  StatusTags :: "NamedTagEventList list"

record templateEnv =
  userTemplates :: "string \<Rightarrow> (error + ControlPlaneSpec) option"
  defaultTemplates :: "string \<Rightarrow> string \<Rightarrow> (error + ControlPlaneSpec) option"
  SetImageValues :: "call list \<Rightarrow> string \<Rightarrow> ControlPlaneSpec \<Rightarrow> error option \<times> ControlPlaneSpec"
  getImageStream :: "call list \<Rightarrow> string \<Rightarrow> string \<Rightarrow> error + ImageStream"

section \<open>Template resolution (reconciler.go, applyTemplates)\<close>

text \<open>
  getSMCPTemplate rejects a name with a slash, reads the template from the user directory
  and, when that fails, from the default directory of the version, and parses it.
\<close>

definition getSMCPTemplate :: "templateEnv \<Rightarrow> string \<Rightarrow> string \<Rightarrow> error + ControlPlaneSpec" where
  "getSMCPTemplate env name maistraVersion =
     (if Contains name ''/''
      then Inl (Errorf ''template name contains invalid character '/' '')
      else
        (case userTemplates env name of
           Some content \<Rightarrow> content
         | None \<Rightarrow>
             (case defaultTemplates env maistraVersion name of
                None \<Rightarrow>
                  Inl (Errorf ''template cannot be loaded from user or default directory'')
              | Some content \<Rightarrow> content)))"

text \<open>
  recursivelyApplyTemplates returns the spec and the error, and it writes to the set
  \<^verbatim>\<open>visited\<close> it was given (a Go map, shared with the caller), so the model returns the
  set as well. A template may name a template, and nothing bounds the chain: the
  function is partial, and \<open>None\<close> means that the call does not return.
\<close>

partial_function (option) recursivelyApplyTemplates ::
  "templateEnv \<Rightarrow> ControlPlaneSpec \<Rightarrow> string \<Rightarrow> string set
    \<Rightarrow> ((ControlPlaneSpec \<times> error option) \<times> string set) option"
where
  "recursivelyApplyTemplates env smcp version visited =
     (if Template smcp = '''' then Some ((smcp, None), visited)
      else if Template smcp \<in> visited
      then Some ((smcp, Some (Errorf ''SMCP templates form cyclic dependency. Cannot proceed'')),
                 visited)
      else
        (case getSMCPTemplate env (Template smcp) version of
           Inl err \<Rightarrow> Some ((smcp, Some err), visited)
         | Inr template \<Rightarrow>
             do {
               res \<leftarrow> recursivelyApplyTemplates env template version visited;
               (case res of
                  ((template', Some err), visited') \<Rightarrow> Some ((smcp, Some err), visited')
                | ((template', None), visited') \<Rightarrow>
                    Some ((smcp\<lparr>Istio := NewHelmValues
                                  (mergeValues (GetContent (Istio smcp))
                                     (GetContent (Istio template'))),
                                ThreeScale := NewHelmValues
                                  (mergeValues (GetContent (ThreeScale smcp))
                                     (GetContent (ThreeScale template')))\<rparr>,
                           None),
                          insert (Template smcp) visited'))
             }))"

text \<open>
  updateImageField and updateOauthProxyConfig. The latter reads and writes the
  process-wide configuration and changes the spec through the pointer it is given; it
  always returns nil. The error of SetField is dropped by the caller.
\<close>

definition updateImageField :: "valueMap option \<Rightarrow> string list \<Rightarrow> string \<Rightarrow> valueMap option" where
  "updateImageField helmValues path v =
     (if length v = 0 then helmValues else fst (SetField helmValues path (StringVal v)))"

definition updateOauthProxyConfig ::
  "templateEnv \<Rightarrow> call list \<Rightarrow> OAuthProxyConfig \<Rightarrow> ControlPlaneSpec
    \<Rightarrow> ControlPlaneSpec \<times> OAuthProxyConfig \<times> call list"
where
  "updateOauthProxyConfig env log config smcpSpec =
     (if \<not> OAuthProxyQuery config \<or> length (OAuthProxyName config) = 0
           \<or> length (OAuthProxyNamespace config) = 0
      then (smcpSpec, config, log)
      else
        (let log' = log @ [CallGetImageStream (OAuthProxyNamespace config) (OAuthProxyName config)];
             config' =
               (case getImageStream env log (OAuthProxyNamespace config) (OAuthProxyName config) of
                  Inr is \<Rightarrow>
                    (case find (\<lambda>tag. TagName tag = OAuthProxyTag config) (StatusTags is) of
                       Some tag \<Rightarrow>
                         (case DockerImageReferences tag of
                            ref # items \<Rightarrow>
                              (if length ref > 0 then config\<lparr>OAuthProxyImage := ref\<rparr>
                               else config)
                          | [] \<Rightarrow> config)
                     | None \<Rightarrow> config)
                | Inl err \<Rightarrow> config)
         in if length (OAuthProxyImage config') = 0 then (smcpSpec, config', log')
            else (smcpSpec\<lparr>Istio := updateImageField (Istio smcpSpec)
                                      [''global'', ''oauthproxy'', ''image'']
                                      (OAuthProxyImage config')\<rparr>,
                  config', log')))"

text \<open>
  applyDisconnectedSettings asks the version's strategy to set the image values (the
  strategy writes to the spec through a pointer) and then resolves the oauth-proxy image.
\<close>

definition applyDisconnectedSettings ::
  "templateEnv \<Rightarrow> call list \<Rightarrow> OAuthProxyConfig \<Rightarrow> ControlPlaneSpec \<Rightarrow> string
    \<Rightarrow> ControlPlaneSpec \<times> error option \<times> OAuthProxyConfig \<times> call list"
where
  "applyDisconnectedSettings env log config smcpSpec version =
     (case SetImageValues env log version smcpSpec of
        (Some err, smcpSpec') \<Rightarrow>
          (smcpSpec', Some err, config, log @ [CallSetImageValues version smcpSpec])
      | (None, smcpSpec') \<Rightarrow>
          (case updateOauthProxyConfig env (log @ [CallSetImageValues version smcpSpec])
                  config smcpSpec' of
             (smcpSpec'', config', log') \<Rightarrow> (smcpSpec'', None, config', log')))"

text \<open>
  applyTemplates. The flag is computed from the spec as it comes in, before the templates
  are resolved. The result of applyDisconnectedSettings replaces both the spec and the
  error of the template resolution.
\<close>

definition applyTemplates ::
  "templateEnv \<Rightarrow> call list \<Rightarrow> OAuthProxyConfig \<Rightarrow> ControlPlaneSpec \<Rightarrow> string
    \<Rightarrow> (ControlPlaneSpec \<times> error option \<times> OAuthProxyConfig \<times> call list) option"
where
  "applyTemplates env log config smcpSpec version =
     (let smcpSpec = (if Template smcpSpec = '''' then smcpSpec\<lparr>Template := DefaultTemplate\<rparr>
                      else smcpSpec);
          applyDisconnected =
            (if GetString (Istio smcpSpec) [''global'', ''tag''] \<noteq> '''' then False
             else if GetString (Istio smcpSpec) [''global'', ''hub''] \<noteq> '''' then False
             else True)
      in do {
           res \<leftarrow> recursivelyApplyTemplates env smcpSpec version {};
           (case res of
              ((spec, err), visited) \<Rightarrow>
                if applyDisconnected
                then Some (applyDisconnectedSettings env log config spec version)
                else Some (spec, err, config, log))
         })"

subsection \<open>Example inputs\<close>

definition specWithTemplate :: "string \<Rightarrow> ControlPlaneSpec" where
  "specWithTemplate t = \<lparr>Version = ''v1.1'', Template = t, Istio = None, ThreeScale = None\<rparr>"

text \<open>Two templates that name each other.\<close>

definition cyclicTemplates :: templateEnv where
  "cyclicTemplates =
     \<lparr>userTemplates = (\<lambda>name.
         if name = ''A'' then Some (Inr (specWithTemplate ''B''))
         else if name = ''B'' then Some (Inr (specWithTemplate ''A''))
         else None),
      defaultTemplates = (\<lambda>version name. None),
      SetImageValues = (\<lambda>log version spec. (None, spec)),
      getImageStream = (\<lambda>log namespace name. Inl (StatusError StatusReasonNotFound ''not found''))\<rparr>"

text \<open>A template that pins the tag, for a spec that does not.\<close>

definition taggedTemplate :: ControlPlaneSpec where
  "taggedTemplate =
     \<lparr>Version = ''v1.1'', Template = '''',
      Istio = Some [(''global'', MapVal [(''tag'', StringVal ''1.1.0'')])],
      ThreeScale = None\<rparr>"

definition pinningTemplates :: templateEnv where
  "pinningTemplates =
     \<lparr>userTemplates = (\<lambda>name. if name = ''default'' then Some (Inr taggedTemplate) else None),
      defaultTemplates = (\<lambda>version name. None),
      SetImageValues = (\<lambda>log version spec. (None, spec)),
      getImageStream = (\<lambda>log namespace name. Inl (StatusError StatusReasonNotFound ''not found''))\<rparr>"

definition noOAuthProxy :: OAuthProxyConfig where
  "noOAuthProxy =
     \<lparr>OAuthProxyQuery = False, OAuthProxyName = '''', OAuthProxyNamespace = '''',
      OAuthProxyTag = '''', OAuthProxyImage = ''''\<rparr>"

definition userSpec :: ControlPlaneSpec where
  "userSpec =
     \<lparr>Version = ''v1.1'', Template = '''',
      Istio = Some [(''global'', MapVal [(''proxy'', StringVal ''envoy'')])],
      ThreeScale = None\<rparr>"

definition pinnedSpec :: ControlPlaneSpec where
  "pinnedSpec =
     \<lparr>Version = ''v1.1'', Template = '''',
      Istio = Some [(''global'', MapVal [(''hub'', StringVal ''registry.local/maistra'')])],
      ThreeScale = None\<rparr>"

text \<open>The two specs above after the template has been merged underneath them.\<close>

definition resolvedUserSpec :: ControlPlaneSpec where
  "resolvedUserSpec =
     \<lparr>Version = ''v1.1'', Template = ''default'',
      Istio = Some [(''global'', MapVal [(''proxy'', StringVal ''envoy''), (''tag'', StringVal ''1.1.0'')])],
      ThreeScale = Some []\<rparr>"

definition resolvedPinnedSpec :: ControlPlaneSpec where
  "resolvedPinnedSpec =
     \<lparr>Version = ''v1.1'', Template = ''default'',
      Istio = Some [(''global'', MapVal [(''hub'', StringVal ''registry.local/maistra''), (''tag'', StringVal ''1.1.0'')])],
      ThreeScale = Some []\<rparr>"

section \<open>Status posting and the reconciliation cycle (reconciler.go)\<close>

subsection \<open>Small helpers\<close>

definition isUpdating :: "reconciler \<Rightarrow> bool" where
  "isUpdating r = (ObservedGeneration (InstanceStatus (Instance r)) \<noteq> 0)"

text \<open>\<^verbatim>\<open>errors.Cause\<close>: the innermost error under the wrappers.\<close>

fun Cause :: "error \<Rightarrow> error" where
  "Cause (Wrap cause msg) = Cause cause"
| "Cause e = e"

text \<open>The part of a string after the last occurrence of a character (all of it if none).\<close>

definition afterLast :: "char \<Rightarrow> string \<Rightarrow> string" where
  "afterLast c s = rev (takeWhile (\<lambda>x. x \<noteq> c) (rev s))"

text \<open>\<^verbatim>\<open>path.Split\<close> keeps the final path segment as the component name.\<close>

definition componentFromChartName :: "string \<Rightarrow> string" where
  "componentFromChartName chartName = afterLast (CHR ''/'') chartName"

text \<open>Decimal digits, for the \<^verbatim>\<open>%d\<close> of the messages.\<close>

fun digits :: "nat \<Rightarrow> string" where
  "digits n =
     (if n < 10 then [char_of (48 + n)]
      else digits (n div 10) @ [char_of (48 + n mod 10)])"

definition itoa :: "int \<Rightarrow> string" where
  "itoa i = (if i < 0 then ''-'' @ digits (nat (- i)) else digits (nat i))"

text \<open>The \<^verbatim>\<open>%v\<close> of a string slice.\<close>

fun joinWords :: "string list \<Rightarrow> string" where
  "joinWords [] = ''''"
| "joinWords [w] = w"
| "joinWords (w # ws) = w @ '' '' @ joinWords ws"

definition showList :: "string list \<Rightarrow> string" where
  "showList ws = ''['' @ joinWords ws @ '']''"

definition Event :: "reconciler \<Rightarrow> string \<Rightarrow> string \<Rightarrow> string \<Rightarrow> reconciler" where
  "Event r eventtype reason msg = r\<lparr>calls := calls r @ [CallEvent eventtype reason msg]\<rparr>"

subsection \<open>PostStatus\<close>

text \<open>
  PostStatus returns at once when the working status equals the status of the instance
  (\<^verbatim>\<open>reflect.DeepEqual\<close>). Otherwise it fetches the instance and, when that succeeded,
  patches the status subresource. An error of either call is returned unless it is
  not-found or gone.
\<close>

definition PostStatus :: "cluster \<Rightarrow> reconciler \<Rightarrow> error option \<times> reconciler" where
  "PostStatus env r =
     (if Status r = InstanceStatus (Instance r) then (None, r)
      else
        (let r1 = r\<lparr>calls := calls r
                      @ [CallGetInstance (InstanceName (Instance r))
                           (InstanceNamespace (Instance r))]\<rparr>
         in case getInstance env (calls r) of
              None \<Rightarrow>
                (let r2 = r1\<lparr>calls := calls r1 @ [CallPatchStatus (Status r)]\<rparr>
                 in case patchStatus env (calls r1) (Status r) of
                      Some err \<Rightarrow>
                        if \<not> (IsGone err \<or> IsNotFound err)
                        then (Some (Wrap err ''error updating ServiceMeshControlPlane status''), r2)
                        else (None, r2)
                    | None \<Rightarrow> (None, r2))
            | Some err \<Rightarrow>
                if \<not> (IsGone err \<or> IsNotFound err)
                then (Some (Wrap err
                        ''error getting ServiceMeshControlPlane prior to updating status''), r1)
                else (None, r1)))"

subsection \<open>Status on entry and on exit\<close>

definition initializeReconcileStatus :: "cluster \<Rightarrow> reconciler \<Rightarrow> reconciler" where
  "initializeReconcileStatus env r =
     (if isUpdating r then
        (let readyMessage =
               (if ObservedGeneration (Status r) = Generation (Instance r)
                then ''Upgrading mesh from version ''
                       @ afterLast (CHR ''-'') (ReconciledVersion (Status r))
                       @ '' to version ''
                       @ afterLast (CHR ''-'')
                           (CurrentReconciledVersion env (Generation (Instance r)))
                else ''Updating mesh from generation '' @ itoa (ObservedGeneration (Status r))
                       @ '' to generation '' @ itoa (Generation (Instance r)));
             r1 = Event r ''Normal'' eventReasonUpdating readyMessage;
             s1 = SetCondition (Status r1)
                    \<lparr>CondType = ConditionTypeReconciled, CondStatus = ConditionStatusFalse,
                     Reason = ConditionReasonSpecUpdated, Message = readyMessage\<rparr>;
             s2 = SetCondition s1
                    \<lparr>CondType = ConditionTypeReady, CondStatus = ConditionStatusFalse,
                     Reason = ConditionReasonSpecUpdated, Message = readyMessage\<rparr>
         in r1\<lparr>Status := s2\<rparr>)
      else
        (let readyMessage = ''Installing mesh generation '' @ itoa (Generation (Instance r));
             s0 = SetCondition (Status r)
                    \<lparr>CondType = ConditionTypeInstalled, CondStatus = ConditionStatusFalse,
                     Reason = ConditionReasonResourceCreated, Message = readyMessage\<rparr>;
             r1 = Event (r\<lparr>Status := s0\<rparr>) ''Normal'' eventReasonInstalling readyMessage;
             s1 = SetCondition (Status r1)
                    \<lparr>CondType = ConditionTypeReconciled, CondStatus = ConditionStatusFalse,
                     Reason = ConditionReasonResourceCreated, Message = readyMessage\<rparr>;
             s2 = SetCondition s1
                    \<lparr>CondType = ConditionTypeReady, CondStatus = ConditionStatusFalse,
                     Reason = ConditionReasonResourceCreated, Message = readyMessage\<rparr>
         in r1\<lparr>Status := s2\<rparr>))"

definition postReconciliationStatus ::
  "cluster \<Rightarrow> reconciler \<Rightarrow> string \<Rightarrow> string \<Rightarrow> error option \<Rightarrow> error option \<times> reconciler"
where
  "postReconciliationStatus env r reconciliationReason reconciliationMessage processingErr =
     (let r1 = r\<lparr>calls := calls r @ [CallUpdateReadinessStatus]\<rparr>
      in case updateReadinessStatus env (calls r) (Status r) of
           (status', Some err) \<Rightarrow> (Some err, r1\<lparr>Status := status'\<rparr>)
         | (status', None) \<Rightarrow>
             (let r2 = r1\<lparr>Status := status'\<rparr>;
                  reason = (if isUpdating r2 then eventReasonUpdating else eventReasonInstalling);
                  reconciledCondition =
                    (GetCondition (Status r2) ConditionTypeReconciled)
                      \<lparr>Reason := reconciliationReason\<rparr>
              in case processingErr of
                   None \<Rightarrow>
                     PostStatus env
                       (r2\<lparr>Status := SetCondition (Status r2)
                            (reconciledCondition\<lparr>Message := reconciliationMessage\<rparr>)\<rparr>)
                 | Some e \<Rightarrow>
                     (let msg = reconciliationMessage @ '': error: '' @ Error (Cause e);
                          r3 = Event r2 ''Warning'' reason msg
                      in PostStatus env
                           (r3\<lparr>Status := SetCondition (Status r3)
                                (reconciledCondition\<lparr>Message := msg\<rparr>)\<rparr>))))"

subsection \<open>The body of Reconcile\<close>

text \<open>
  What the body leaves in the variables that the deferred functions read: the reason and
  message for the Reconciled condition, the named result \<^verbatim>\<open>err\<close>, and whether the
  reconciliation was completed.
\<close>

record outcome =
  outReason :: string
  outMessage :: string
  outErr :: "error option"
  outComplete :: bool

text \<open>
  A phase either returns from Reconcile with an outcome or falls through to the next
  phase.
\<close>

definition andThen ::
  "outcome option \<times> reconciler \<Rightarrow> (reconciler \<Rightarrow> outcome option \<times> reconciler)
    \<Rightarrow> outcome option \<times> reconciler"
where
  "andThen p f = (case p of (Some out, r) \<Rightarrow> (Some out, r) | (None, r) \<Rightarrow> f r)"

definition pauseReconciliation :: "reconciler \<Rightarrow> (string \<times> string \<times> error option) \<times> reconciler" where
  "pauseReconciliation r =
     (let eventReason = (if isUpdating r then eventReasonPausingUpdate
                         else eventReasonPausingInstall);
          conditionReason = (if isUpdating r then ConditionReasonPausingUpdate
                             else ConditionReasonPausingInstall);
          reconciliationMessage =
            ''Paused until the following components become ready: ''
              @ showList (sorted_list_of_set (waitForComponents r))
      in ((conditionReason, reconciliationMessage, None),
          Event r ''Normal'' eventReason reconciliationMessage))"

definition paused :: "reconciler \<Rightarrow> outcome option \<times> reconciler" where
  "paused r =
     (case pauseReconciliation r of
        ((conditionReason, msg, e), r') \<Rightarrow>
          (Some \<lparr>outReason = conditionReason, outMessage = msg, outErr = e,
                 outComplete = False\<rparr>, r'))"

text \<open>The steps of the branch taken when there are no renderings yet.\<close>

definition renderStep :: "cluster \<Rightarrow> outcome \<Rightarrow> string \<Rightarrow> reconciler \<Rightarrow> outcome option \<times> reconciler" where
  "renderStep env start version r =
     (case renderCharts env (calls r) version (Instance r) of
        (Some e, lastApplied, rendered) \<Rightarrow>
          (Some \<lparr>outReason = ConditionReasonReconcileError,
                 outMessage = ''Error rendering helm charts'',
                 outErr = Some (Wrap e ''Error rendering helm charts''),
                 outComplete = False\<rparr>,
           r\<lparr>Status := (Status r)\<lparr>LastAppliedConfiguration := lastApplied\<rparr>,
             calls := calls r @ [CallRenderCharts version]\<rparr>)
      | (None, lastApplied, rendered) \<Rightarrow>
          (None,
           r\<lparr>Status := (Status r)\<lparr>LastAppliedConfiguration := lastApplied\<rparr>,
             renderings := Some rendered,
             calls := calls r @ [CallRenderCharts version]\<rparr>))"

text \<open>Modelled from the spec: \<^verbatim>\<open>common.MemberOfKey\<close>, the key of the member-of label.\<close>

definition MemberOfKey :: string where
  "MemberOfKey = ''maistra.io/member-of''"

definition namespaceStep :: "cluster \<Rightarrow> reconciler \<Rightarrow> outcome option \<times> reconciler" where
  "namespaceStep env r =
     (let name = InstanceNamespace (Instance r);
          r1 = r\<lparr>calls := calls r @ [CallGetNamespace name]\<rparr>;
          failed = (\<lambda>e r'.
            (Some \<lparr>outReason = ConditionReasonReconcileError,
                   outMessage = ''Error updating labels on mesh namespace'',
                   outErr = Some (Wrap e ''Error updating labels on mesh namespace''),
                   outComplete = False\<rparr>, r'))
      in case getNamespace env (calls r) name of
           Inl e \<Rightarrow> failed e r1
         | Inr labels \<Rightarrow>
             (let labels1 = (if map_of labels ''maistra.io/ignore-namespace'' \<noteq> Some ''ignore''
                             then AList.update ''maistra.io/ignore-namespace'' ''ignore'' labels
                             else labels);
                  labels2 = (if map_of labels1 MemberOfKey \<noteq> Some name
                             then AList.update MemberOfKey name labels1 else labels1);
                  updateLabels = (map_of labels ''maistra.io/ignore-namespace'' \<noteq> Some ''ignore''
                                  \<or> map_of labels1 MemberOfKey \<noteq> Some name)
              in if updateLabels
                 then (case updateNamespace env (calls r1) name labels2 of
                         Some e \<Rightarrow> failed e (r1\<lparr>calls := calls r1 @ [CallUpdateNamespace name labels2]\<rparr>)
                       | None \<Rightarrow> (None, r1\<lparr>calls := calls r1 @ [CallUpdateNamespace name labels2]\<rparr>))
                 else (None, r1)))"

definition chartGroups :: "cluster \<Rightarrow> reconciler \<Rightarrow> string list list" where
  "chartGroups env r =
     (let rendered = (case renderings r of None \<Rightarrow> Map.empty | Some m \<Rightarrow> m)
      in case rangeKeys env (calls r) rendered of
           (keys1, keys2) \<Rightarrow> getChartsInInstallationOrder rendered keys1 keys2)"

definition initialComponentStatus :: "ControlPlaneStatus \<Rightarrow> string \<Rightarrow> ComponentStatus" where
  "initialComponentStatus s chartName =
     (let componentName = componentFromChartName chartName;
          componentStatus =
            (case FindComponentByName s componentName of
               None \<Rightarrow> NewComponentStatus\<lparr>Resource := componentName\<rparr>
             | Some c \<Rightarrow> c)
      in componentStatus\<lparr>ComponentConditions :=
           setCond (ComponentConditions componentStatus)
             \<lparr>CondType = ConditionTypeReconciled, CondStatus = ConditionStatusFalse,
              Reason = '''', Message = ''''\<rparr>\<rparr>)"

definition initStatusStep :: "cluster \<Rightarrow> reconciler \<Rightarrow> outcome option \<times> reconciler" where
  "initStatusStep env r =
     (None,
      r\<lparr>Status := (Status r)\<lparr>ComponentStatuses :=
           map (initialComponentStatus (Status r)) (concat (chartGroups env r))\<rparr>,
        meshGeneration := CurrentReconciledVersion env (Generation (Instance r))\<rparr>)"

definition crdStep :: "cluster \<Rightarrow> outcome \<Rightarrow> string \<Rightarrow> reconciler \<Rightarrow> outcome option \<times> reconciler" where
  "crdStep env start version r =
     (let r1 = r\<lparr>calls := calls r @ [CallInstallCRDs version]\<rparr>
      in case InstallCRDs env (calls r) version of
           Some e \<Rightarrow>
             (Some \<lparr>outReason = ConditionReasonReconcileError,
                    outMessage = ''Failed to install/update Istio CRDs'',
                    outErr = Some e, outComplete = False\<rparr>, r1)
         | None \<Rightarrow> (None, r1))"

definition cniStep :: "cluster \<Rightarrow> reconciler \<Rightarrow> outcome option \<times> reconciler" where
  "cniStep env r =
     (if cniEnabled r then
        (let r1 = r\<lparr>waitForComponents := {''cni''}, calls := calls r @ [CallInstallCNI]\<rparr>
         in case InstallCNI env (calls r) of
              Some e \<Rightarrow>
                (Some \<lparr>outReason = ConditionReasonReconcileError,
                       outMessage = ''Failed to install/update Istio CNI'',
                       outErr = Some e, outComplete = False\<rparr>, r1)
            | None \<Rightarrow>
                (let r2 = r1\<lparr>calls := calls r1 @ [CallIsCNIReady]\<rparr>
                 in if \<not> isCNIReady env (calls r1)
                    then (Some \<lparr>outReason = ConditionReasonPausingInstall,
                                outMessage = ''Paused until cni becomes ready'',
                                outErr = None, outComplete = False\<rparr>, r2)
                    else (None, r2)))
      else (None, r))"

definition rbacStep :: "cluster \<Rightarrow> reconciler \<Rightarrow> outcome option \<times> reconciler" where
  "rbacStep env r =
     (let r1 = r\<lparr>calls := calls r @ [CallReconcileRBAC]\<rparr>
      in case reconcileRBAC env (calls r) of
           Some e \<Rightarrow>
             (Some \<lparr>outReason = ConditionReasonReconcileError,
                    outMessage = ''Failed to install/update Maistra RBAC resources'',
                    outErr = Some e, outComplete = False\<rparr>, r1)
         | None \<Rightarrow> (None, r1))"

definition renderingPhase :: "cluster \<Rightarrow> outcome \<Rightarrow> reconciler \<Rightarrow> outcome option \<times> reconciler" where
  "renderingPhase env start r =
     (case ParseVersion env (SpecVersion (Instance r)) of
        Inl e \<Rightarrow> (Some (start\<lparr>outErr := Some e\<rparr>), r)
      | Inr version \<Rightarrow>
          andThen (renderStep env start version r) (\<lambda>r.
          andThen (namespaceStep env r) (\<lambda>r.
          andThen (initStatusStep env r) (\<lambda>r.
          andThen (crdStep env start version r) (\<lambda>r.
          andThen (cniStep env r) (\<lambda>r.
          rbacStep env r))))))"

text \<open>The branch taken when renderings exist and the wait set is not empty.\<close>

definition resumePhase :: "cluster \<Rightarrow> reconciler \<Rightarrow> outcome option \<times> reconciler" where
  "resumePhase env r =
     (let r1 = r\<lparr>calls := calls r @ [CallCalculateComponentReadiness (waitForComponents r)]\<rparr>
      in case calculateComponentReadiness env (calls r) (waitForComponents r) of
           (readyComponents, Some readinessErr) \<Rightarrow>
             (Some \<lparr>outReason = ConditionReasonProbeError,
                    outMessage = ''Error checking component readiness'',
                    outErr = Some (Wrap readinessErr ''Error checking component readiness''),
                    outComplete = False\<rparr>, r1)
         | (readyComponents, None) \<Rightarrow>
             (let r2 = r1\<lparr>waitForComponents := waitForComponents r1 - readyComponents\<rparr>
              in if waitForComponents r2 \<noteq> {} then paused r2 else (None, r2)))"

text \<open>
  The loop that creates the components: the inner loop applies the charts of one group
  and returns the component and the error of the first failure.
\<close>

fun processCharts ::
  "cluster \<Rightarrow> string list \<Rightarrow> reconciler \<Rightarrow> (string \<times> error) option \<times> reconciler"
where
  "processCharts env [] r = (None, r)"
| "processCharts env (chart # charts) r =
     (let component = componentFromChartName chart;
          r1 = r\<lparr>calls := calls r @ [CallProcessComponentManifests chart]\<rparr>
      in case processComponentManifests env (calls r) chart of
           (hasReadiness, Some e) \<Rightarrow> (Some (component, e), r1)
         | (hasReadiness, None) \<Rightarrow>
             processCharts env charts
               (if hasReadiness
                then r1\<lparr>waitForComponents := insert component (waitForComponents r1)\<rparr>
                else r1))"

fun installGroups :: "cluster \<Rightarrow> string list list \<Rightarrow> reconciler \<Rightarrow> outcome option \<times> reconciler" where
  "installGroups env [] r = (None, r)"
| "installGroups env (charts # groups) r =
     (case processCharts env charts (r\<lparr>waitForComponents := {}\<rparr>) of
        (Some (component, e), r1) \<Rightarrow>
          (Some \<lparr>outReason = ConditionReasonReconcileError,
                 outMessage = ''Error processing component '' @ component @ '': '' @ Error e,
                 outErr = Some e, outComplete = False\<rparr>, r1)
      | (None, r1) \<Rightarrow>
          if waitForComponents r1 \<noteq> {} then
            (let r2 = r1\<lparr>calls := calls r1
                           @ [CallCalculateComponentReadiness (waitForComponents r1)]\<rparr>
             in case calculateComponentReadiness env (calls r1) (waitForComponents r1) of
                  (readyComponents, Some readyErr) \<Rightarrow> paused r2
                | (readyComponents, None) \<Rightarrow>
                    (let r3 = r2\<lparr>waitForComponents := waitForComponents r2 - readyComponents\<rparr>
                     in if waitForComponents r3 \<noteq> {} then paused r3
                        else installGroups env groups r3))
          else installGroups env groups r1)"

text \<open>Pruning and the successful end.\<close>

definition finishPhase :: "cluster \<Rightarrow> reconciler \<Rightarrow> outcome \<times> reconciler" where
  "finishPhase env r =
     (let r0 = Event r ''Normal'' eventReasonPruning ''Pruning obsolete resources'';
          r1 = r0\<lparr>calls := calls r0 @ [CallPrune (meshGeneration r0)]\<rparr>
      in case prune env (calls r0) (meshGeneration r0) of
           Some e \<Rightarrow>
             (\<lparr>outReason = ConditionReasonReconcileError,
               outMessage = ''Error pruning obsolete resources'',
               outErr = Some (Wrap e ''Error pruning obsolete resources''),
               outComplete = False\<rparr>, r1)
         | None \<Rightarrow>
             (let reason = (if isUpdating r1 then ConditionReasonUpdateSuccessful
                            else ConditionReasonInstallSuccessful);
                  msg = (if isUpdating r1
                         then ''Successfully updated from version ''
                                @ ReconciledVersion (Status r1) @ '' to version ''
                                @ meshGeneration r1
                         else ''Successfully installed version '' @ meshGeneration r1);
                  r2 = Event r1 ''Normal''
                         (if isUpdating r1 then eventReasonUpdated else eventReasonInstalled) msg;
                  s = (Status r2)\<lparr>ObservedGeneration := Generation (Instance r2),
                                  ReconciledVersion := meshGeneration r2\<rparr>;
                  r3 = r2\<lparr>Status := updateControlPlaneConditions env s None,
                          calls := calls r2 @ [CallUpdateControlPlaneConditions None]\<rparr>
              in (\<lparr>outReason = reason, outMessage = msg, outErr = None, outComplete = True\<rparr>,
                  r3)))"

definition reconcileBody :: "cluster \<Rightarrow> outcome \<Rightarrow> reconciler \<Rightarrow> outcome \<times> reconciler" where
  "reconcileBody env start r =
     (case andThen
             (if renderings r = None then renderingPhase env start r
              else if waitForComponents r \<noteq> {} then resumePhase env r
              else (None, r))
             (\<lambda>r. installGroups env (chartGroups env r) r) of
        (Some out, r') \<Rightarrow> (out, r')
      | (None, r') \<Rightarrow> finishPhase env r')"

subsection \<open>Reconcile\<close>

text \<open>
  Reconcile with its deferred functions, which run last-registered first: the error
  handler (registered only in the branch without renderings), then the function that
  posts the status and, after a completed reconciliation, waits two seconds. The result
  is the named result \<^verbatim>\<open>err\<close> (the \<^verbatim>\<open>reconcile.Result\<close> is always empty) and the
  reconciler after the call.
\<close>

definition startOutcome :: "reconciler \<Rightarrow> outcome" where
  "startOutcome r =
     (let reconciledCondition = GetCondition (Status r) ConditionTypeReconciled
      in \<lparr>outReason = Reason reconciledCondition, outMessage = Message reconciledCondition,
          outErr = None, outComplete = False\<rparr>)"

definition Reconcile :: "cluster \<Rightarrow> reconciler \<Rightarrow> error option \<times> reconciler" where
  "Reconcile env r =
     (if CondStatus (GetCondition (Status r) ConditionTypeReconciled) \<noteq> ConditionStatusFalse
      then PostStatus env (initializeReconcileStatus env r)
      else
        (let errorHandling = (renderings r = None)
         in case reconcileBody env (startOutcome r) r of
              (out, r1) \<Rightarrow>
                (let r2 = (if errorHandling \<and> outErr out \<noteq> None
                           then r1\<lparr>Status := updateControlPlaneConditions env (Status r1)
                                                (outErr out),
                                   waitForComponents := {},
                                   calls := calls r1
                                     @ [CallUpdateControlPlaneConditions (outErr out)]\<rparr>
                           else r1)
                 in case postReconciliationStatus env r2 (outReason out) (outMessage out)
                           (outErr out) of
                      (statusErr, r3) \<Rightarrow>
                        (let err = (case statusErr of
                                      Some e \<Rightarrow> (if outErr out = None then Some e
                                                 else outErr out)
                                    | None \<Rightarrow> outErr out)
                         in (err,
                             if outComplete out then r3\<lparr>calls := calls r3 @ [CallSleep]\<rparr>
                             else r3)))))"

text \<open>The errors with which updateControlPlaneConditions was called, in order.\<close>

fun conditionUpdates :: "call list \<Rightarrow> error option list" where
  "conditionUpdates [] = []"
| "conditionUpdates (CallUpdateControlPlaneConditions e # log) = e # conditionUpdates log"
| "conditionUpdates (c # log) = conditionUpdates log"

subsection \<open>Example inputs\<close>

definition emptySpec :: ControlPlaneSpec where
  "emptySpec = \<lparr>Version = ''v1.1'', Template = '''', Istio = None, ThreeScale = None\<rparr>"

text \<open>The status of an instance whose installation has begun: Reconciled is false.\<close>

definition installingStatus :: ControlPlaneStatus where
  "installingStatus =
     \<lparr>Conditions =
        [\<lparr>CondType = ConditionTypeReconciled, CondStatus = ConditionStatusFalse,
          Reason = ''ResourceCreated'', Message = ''Installing mesh generation 1''\<rparr>],
      ComponentStatuses = [], ObservedGeneration = 0, ReconciledVersion = '''',
      LastAppliedConfiguration = emptySpec\<rparr>"

definition exampleInstance :: ServiceMeshControlPlane where
  "exampleInstance =
     \<lparr>InstanceName = ''basic-install'', InstanceNamespace = ''istio-system'', Generation = 1,
      SpecVersion = ''v1.1'', InstanceStatus = installingStatus\<rparr>"

text \<open>Surroundings in which every call succeeds and every component is ready.\<close>

definition calmCluster :: cluster where
  "calmCluster =
     \<lparr>ParseVersion = (\<lambda>v. Inr v),
      renderCharts = (\<lambda>log version instance.
         (None, emptySpec, [''istio/charts/pilot'' \<mapsto> [''deployment'']])),
      getNamespace = (\<lambda>log name. Inr []),
      updateNamespace = (\<lambda>log name labels. None),
      CurrentReconciledVersion = (\<lambda>generation. ''1.1.0-1''),
      InstallCRDs = (\<lambda>log version. None),
      InstallCNI = (\<lambda>log. None),
      isCNIReady = (\<lambda>log. True),
      reconcileRBAC = (\<lambda>log. None),
      calculateComponentReadiness = (\<lambda>log waiting. (waiting, None)),
      processComponentManifests = (\<lambda>log chart. (True, None)),
      prune = (\<lambda>log generation. None),
      updateReadinessStatus = (\<lambda>log status. (status, None)),
      updateControlPlaneConditions = (\<lambda>status err. status),
      getInstance = (\<lambda>log. None),
      patchStatus = (\<lambda>log status. None),
      rangeKeys = (\<lambda>log rendered. ([''istio/charts/pilot''], [''istio/charts/pilot'']))\<rparr>"

text \<open>The same surroundings, except that inspecting the live state fails.\<close>

definition probeFailure :: error where
  "probeFailure = Errorf ''connection refused''"

definition failingProbeCluster :: cluster where
  "failingProbeCluster =
     calmCluster\<lparr>calculateComponentReadiness := (\<lambda>log waiting. ({}, Some probeFailure))\<rparr>"

text \<open>The same surroundings, except that the instance has been deleted.\<close>

definition deletedInstanceCluster :: cluster where
  "deletedInstanceCluster =
     calmCluster\<lparr>getInstance :=
       (\<lambda>log. Some (StatusError StatusReasonNotFound ''servicemeshcontrolplane not found''))\<rparr>"

text \<open>A reconciler whose working status differs from the status of its instance.\<close>

definition changedStatus :: ControlPlaneStatus where
  "changedStatus = installingStatus\<lparr>ReconciledVersion := ''1.1.0-1''\<rparr>"

definition postingReconciler :: reconciler where
  "postingReconciler =
     \<lparr>Instance = exampleInstance, Status = changedStatus, meshGeneration = ''1.1.0-1'',
      renderings = None, waitForComponents = {}, cniEnabled = False, calls = []\<rparr>"

text \<open>A reconciler in the middle of an installation: the charts are rendered.\<close>

definition renderedReconciler :: reconciler where
  "renderedReconciler =
     \<lparr>Instance = exampleInstance, Status = installingStatus, meshGeneration = ''1.1.0-1'',
      renderings = Some [''istio/charts/pilot'' \<mapsto> [''deployment'']],
      waitForComponents = {}, cniEnabled = False, calls = []\<rparr>"

text \<open>The same reconciler, waiting for a component since the previous cycle.\<close>

definition waitingReconciler :: reconciler where
  "waitingReconciler = renderedReconciler\<lparr>waitForComponents := {''pilot''}\<rparr>"




text \<open>Surroundings in which the status patch finds the instance gone.\<close>

definition goneOnPatchCluster :: cluster where
  "goneOnPatchCluster =
     calmCluster\<lparr>patchStatus :=
       (\<lambda>log status. Some (StatusError StatusReasonGone ''servicemeshcontrolplane is gone''))\<rparr>"

section \<open>Verification\<close>

subsection \<open>Schema sanitizer\<close>

lemma index_map: "index (map f xs) i = map_option f (index xs i)"
  by (simp add: index_def)

lemma bind_map_option:
  "Option.bind (map_option f x) g = Option.bind x (\<lambda>y. g (f y))"
  by (cases x) simp_all

lemma child_removeTypeObjectField:
  "child (removeTypeObjectField s) st = map_option removeTypeObjectField (child s st)"
proof (cases s)
  case (JSONSchemaProps t items allOf oneOf anyOf not' props addProps patProps deps addItems defs other)
  show ?thesis
    unfolding JSONSchemaProps
    by (cases st)
       (simp_all add: index_map bind_map_option JSONSchemaPropsOrArray.map_sel
          JSONSchemaPropsOrBool.map_sel JSONSchemaPropsOrStringArray.map_sel
          map_option.comp comp_def split: Option.bind_split)
qed

lemma subschemaAt_removeTypeObjectField:
  "subschemaAt (removeTypeObjectField s) path
     = map_option removeTypeObjectField (subschemaAt s path)"
proof (induction path arbitrary: s)
  case Nil
  show ?case by simp
next
  case (Cons st path)
  show ?case
    by (cases "child s st") (simp_all add: child_removeTypeObjectField Cons.IH)
qed

lemma Type_removeTypeObjectField:
  "Type (removeTypeObjectField s) = (if Type s = ''object'' then '''' else Type s)"
  by (cases s) simp

lemma ownFields_removeTypeObjectField:
  "ownFields (removeTypeObjectField s) = ownFields s"
  by (cases s)
     (simp add: ownFields_def option.map_comp comp_def JSONSchemaPropsOrArray.map_comp
        JSONSchemaPropsOrBool.map_comp JSONSchemaPropsOrStringArray.map_comp fmap.map_comp)

lemma index_Some_iff: "(\<exists>i. index xs i = Some c) \<longleftrightarrow> c \<in> set xs"
  by (auto simp: index_def in_set_conv_nth)

lemma set_array: "set_JSONSchemaPropsOrArray a = set_option (ArraySchema a) \<union> set (JSONSchemas a)"
  by (cases a) auto
lemma set_bool: "set_JSONSchemaPropsOrBool a = set_option (BoolSchema a)"
  by (cases a) auto
lemma set_dep: "set_JSONSchemaPropsOrStringArray a = set_option (DependencySchema a)"
  by (cases a) auto

lemma child_Some_subschemas: "child s st = Some c \<Longrightarrow> c \<in> subschemas s"
  by (cases st)
     (auto simp: subschemas_def set_array set_bool set_dep index_def fmran'I
        split: Option.bind_splits if_splits)

lemma subschemas_child: 
  assumes "c \<in> subschemas s" shows "\<exists>st. child s st = Some c"
proof -
  have I: "\<And>st. child s st = Some c \<Longrightarrow> ?thesis" by blast
  from assms show ?thesis
    unfolding subschemas_def set_array set_bool set_dep
    apply (elim UnE UN_E)
    subgoal by (rule I[of InItemsSchema]) (auto)
    subgoal using index_Some_iff[of _ c] by (metis child.simps(2) bind.bind_lunit option.set_cases)
    subgoal using index_Some_iff[of _ c] by (metis child.simps(3))
    subgoal using index_Some_iff[of _ c] by (metis child.simps(4))
    subgoal using index_Some_iff[of _ c] by (metis child.simps(5))
    subgoal by (rule I[of InNot]) auto
    subgoal by (metis child.simps(7) fmran'E)
    subgoal by (rule I[of InAdditionalProperties]) auto
    subgoal by (metis child.simps(9) fmran'E)
    subgoal for d by (erule fmran'E) (metis child.simps(10) bind.bind_lunit option.set_cases)
    subgoal by (rule I[of InAdditionalItems]) auto
    subgoal by (metis child.simps(12) fmran'E)
    done
qed

lemma Contains_iff: "Contains s substr \<longleftrightarrow> (\<exists>pre suf. s = pre @ substr @ suf)"
proof (induction s)
  case Nil
  show ?case by auto
next
  case (Cons c s)
  show ?case
  proof
    assume "Contains (c # s) substr"
    then consider "prefix substr (c # s)" | "Contains s substr" by auto
    then show "\<exists>pre suf. c # s = pre @ substr @ suf"
    proof cases
      case 1
      then obtain suf where "c # s = substr @ suf" by (auto simp: prefix_def)
      then have "c # s = [] @ substr @ suf" by simp
      then show ?thesis by blast
    next
      case 2
      with Cons.IH obtain pre suf where "s = pre @ substr @ suf" by blast
      then have "c # s = (c # pre) @ substr @ suf" by simp
      then show ?thesis by blast
    qed
  next
    assume "\<exists>pre suf. c # s = pre @ substr @ suf"
    then obtain pre suf where eq: "c # s = pre @ substr @ suf" by blast
    show "Contains (c # s) substr"
    proof (cases pre)
      case Nil
      with eq have "prefix substr (c # s)" by (simp add: prefix_def)
      then show ?thesis by simp
    next
      case (Cons d pre')
      with eq have "s = pre' @ substr @ suf" by simp
      with Cons.IH have "Contains s substr" by blast
      then show ?thesis by simp
    qed
  qed
qed


text \<open>
  Claim C1. When the CRD has a validation schema at its root, the sanitizer succeeds and
  replaces the root schema by one in which no node, reached by any path through item
  schemas, allOf/oneOf/anyOf branches, not, properties, additionalProperties,
  patternProperties, dependencies, additionalItems and definitions, has type
  \<^verbatim>\<open>"object"\<close>. The paths of the old and the new schema are the same, and at each path the
  node keeps all its own fields; its type changes only from \<^verbatim>\<open>"object"\<close> to the empty
  string. The rest of the CRD is unchanged.
\<close>

theorem RemoveTypeObjectFieldsFromCRDSchema_sanitizes:
  assumes "Validation (Spec crd) = Some validation"
    and "OpenAPIV3Schema validation = Some schema"
  shows "\<exists>schema'.
           RemoveTypeObjectFieldsFromCRDSchema crd
             = (None, crd\<lparr>Spec := (Spec crd)\<lparr>Validation :=
                  Some (validation\<lparr>OpenAPIV3Schema := Some schema'\<rparr>)\<rparr>\<rparr>)
         \<and> (\<forall>path node'. subschemaAt schema' path = Some node' \<longrightarrow> Type node' \<noteq> ''object'')
         \<and> (\<forall>path. rel_option
                (\<lambda>node node'.
                   Type node' = (if Type node = ''object'' then '''' else Type node)
                   \<and> ownFields node' = ownFields node)
                (subschemaAt schema path) (subschemaAt schema' path))"
proof (intro exI conjI allI impI)
  show "RemoveTypeObjectFieldsFromCRDSchema crd
          = (None, crd\<lparr>Spec := (Spec crd)\<lparr>Validation :=
               Some (validation\<lparr>OpenAPIV3Schema := Some (removeTypeObjectField schema)\<rparr>)\<rparr>\<rparr>)"
    using assms by (simp add: RemoveTypeObjectFieldsFromCRDSchema_def)
next
  fix path node'
  assume "subschemaAt (removeTypeObjectField schema) path = Some node'"
  then obtain node where "node' = removeTypeObjectField node"
    by (auto simp: subschemaAt_removeTypeObjectField)
  then show "Type node' \<noteq> ''object''"
    by (simp add: Type_removeTypeObjectField)
next
  fix path
  show "rel_option
          (\<lambda>node node'.
             Type node' = (if Type node = ''object'' then '''' else Type node)
             \<and> ownFields node' = ownFields node)
          (subschemaAt schema path) (subschemaAt (removeTypeObjectField schema) path)"
    by (cases "subschemaAt schema path")
       (simp_all add: subschemaAt_removeTypeObjectField Type_removeTypeObjectField
          ownFields_removeTypeObjectField)
qed

theorem RemoveTypeObjectFieldsFromCRDSchema_sanitizes_witness:
  "Validation (Spec exampleCRD) = Some exampleValidation
   \<and> OpenAPIV3Schema exampleValidation = Some exampleSchema
   \<and> subschemaAt exampleSchema [InProperties ''spec'', InAdditionalProperties]
       = Some (leaf ''object'')
   \<and> (\<exists>schema'.
         RemoveTypeObjectFieldsFromCRDSchema exampleCRD
           = (None, exampleCRD\<lparr>Spec := (Spec exampleCRD)\<lparr>Validation :=
                Some (exampleValidation\<lparr>OpenAPIV3Schema := Some schema'\<rparr>)\<rparr>\<rparr>)
       \<and> (\<forall>path node'. subschemaAt schema' path = Some node' \<longrightarrow> Type node' \<noteq> ''object'')
       \<and> (\<forall>path. rel_option
              (\<lambda>node node'.
                 Type node' = (if Type node = ''object'' then '''' else Type node)
                 \<and> ownFields node' = ownFields node)
              (subschemaAt exampleSchema path) (subschemaAt schema' path)))"
proof -
  have h1: "Validation (Spec exampleCRD) = Some exampleValidation"
    by (simp add: exampleCRD_def)
  have h2: "OpenAPIV3Schema exampleValidation = Some exampleSchema"
    by (simp add: exampleValidation_def)
  have h3: "subschemaAt exampleSchema [InProperties ''spec'', InAdditionalProperties]
              = Some (leaf ''object'')"
    by (simp add: exampleSchema_def)
  show ?thesis
    using RemoveTypeObjectFieldsFromCRDSchema_sanitizes [OF h1 h2] h1 h2 h3 by blast
qed


text \<open>
  Claim C8. When the CRD has no validation section, or the validation section has no root
  schema, the sanitizer returns the error "Could not remove type:object fields from CRD
  schema as no spec.validation.openAPIV3Schema exists" and the CRD is as before. The
  rejection predicate is true exactly when an error is present and its message contains
  the rejection phrase; for no error and for every other message it is false.
\<close>

theorem CRD_no_schema_and_rejection_predicate:
  "((Validation (Spec crd) = None
       \<or> (\<exists>validation. Validation (Spec crd) = Some validation
             \<and> OpenAPIV3Schema validation = None))
      \<longrightarrow> RemoveTypeObjectFieldsFromCRDSchema crd
            = (Some (Errorf ''Could not remove type:object fields from CRD schema as no spec.validation.openAPIV3Schema exists''),
               crd))
   \<and> (IsTypeObjectProblemInCRDSchemas err
        \<longleftrightarrow> (\<exists>e pre suf. err = Some e \<and> Error e = pre @ rejectionPhrase @ suf))"
proof (intro conjI impI)
  assume "Validation (Spec crd) = None
       \<or> (\<exists>validation. Validation (Spec crd) = Some validation
             \<and> OpenAPIV3Schema validation = None)"
  then show "RemoveTypeObjectFieldsFromCRDSchema crd
            = (Some (Errorf ''Could not remove type:object fields from CRD schema as no spec.validation.openAPIV3Schema exists''),
               crd)"
    by (auto simp: RemoveTypeObjectFieldsFromCRDSchema_def)
next
  show "IsTypeObjectProblemInCRDSchemas err
        \<longleftrightarrow> (\<exists>e pre suf. err = Some e \<and> Error e = pre @ rejectionPhrase @ suf)"
    by (cases err) (simp_all add: IsTypeObjectProblemInCRDSchemas_def Contains_iff)
qed

theorem CRD_no_schema_and_rejection_predicate_witness:
  "RemoveTypeObjectFieldsFromCRDSchema exampleCRDNoSchema
     = (Some (Errorf ''Could not remove type:object fields from CRD schema as no spec.validation.openAPIV3Schema exists''),
        exampleCRDNoSchema)
   \<and> IsTypeObjectProblemInCRDSchemas (Some exampleRejection)
   \<and> \<not> IsTypeObjectProblemInCRDSchemas None
   \<and> \<not> IsTypeObjectProblemInCRDSchemas (Some (Errorf ''connection refused''))"
proof -
  have hyp: "Validation (Spec exampleCRDNoSchema) = None
       \<or> (\<exists>validation. Validation (Spec exampleCRDNoSchema) = Some validation
             \<and> OpenAPIV3Schema validation = None)"
    by (simp add: exampleCRDNoSchema_def)
  have "Error exampleRejection
          = ''spec.validation.openAPIV3Schema: Invalid value: '' @ rejectionPhrase @ ''''"
    by (simp add: exampleRejection_def rejectionPhrase_def)
  then have phrase: "\<exists>e pre suf. Some exampleRejection = Some e
                       \<and> Error e = pre @ rejectionPhrase @ suf"
    by blast
  have absent: "\<not> (\<exists>e pre suf. (None :: error option) = Some e
                       \<and> Error e = pre @ rejectionPhrase @ suf)"
    by simp
  have other: "\<not> IsTypeObjectProblemInCRDSchemas (Some (Errorf ''connection refused''))"
    by (simp add: IsTypeObjectProblemInCRDSchemas_def rejectionPhrase_def)
  show ?thesis
    using CRD_no_schema_and_rejection_predicate [of exampleCRDNoSchema "Some exampleRejection"]
      CRD_no_schema_and_rejection_predicate [of exampleCRDNoSchema None]
      hyp phrase absent other
    by blast
qed

subsection \<open>Install ordering: the loops as list functions\<close>

lemma orderedInner_eq:
  "orderedInner rend cs acc seen =
     (acc @ filter (\<lambda>c. c \<in> dom rend) cs,
      seen \<union> {c \<in> set cs. c \<in> dom rend})"
  by (induction cs arbitrary: acc seen) (auto simp: dom_def)

lemma orderedOuter_eq:
  "orderedOuter rend gs charts seen =
     (charts @ filter (\<lambda>g. g \<noteq> []) (map (filter (\<lambda>c. c \<in> dom rend)) gs),
      seen \<union> {c \<in> set (concat gs). c \<in> dom rend})"
proof (induction gs arbitrary: charts seen)
  case Nil
  show ?case by simp
next
  case (Cons g gs)
  have "{c \<in> set g. c \<in> dom rend} \<union> {c \<in> set (concat gs). c \<in> dom rend}
        = {c \<in> set (concat (g # gs)). c \<in> dom rend}"
    by auto
  then show ?case
    by (simp add: orderedInner_eq Cons.IH Un_assoc)
qed

lemma istioLoop_eq:
  "distinct ks \<Longrightarrow>
   istioLoop ks charts seen =
     (charts @ map (\<lambda>c. [c]) (filter (\<lambda>c. prefix ''istio/'' c \<and> c \<notin> seen) ks),
      seen \<union> {c \<in> set ks. prefix ''istio/'' c})"
proof (induction ks arbitrary: charts seen)
  case Nil
  show ?case by simp
next
  case (Cons k ks)
  have same: "filter (\<lambda>c. prefix ''istio/'' c \<and> c \<notin> insert k seen) ks
              = filter (\<lambda>c. prefix ''istio/'' c \<and> c \<notin> seen) ks"
    using Cons.prems by (intro filter_cong) auto
  from Cons.prems have d: "distinct ks" by simp
  show ?case
    using Cons.IH [OF d] same by (auto simp: HasPrefix_def)
qed

lemma otherLoop_eq:
  "otherLoop ks charts seen = charts @ map (\<lambda>c. [c]) (filter (\<lambda>c. c \<notin> seen) ks)"
  by (induction ks arbitrary: charts) auto

lemma getCharts_installPlan:
  assumes "rangeOrder rend keys1" and "rangeOrder rend keys2"
  shows "getChartsInInstallationOrder rend keys1 keys2
         = installPlan rend keys1 keys2"
proof -
  let ?seen = "{c \<in> set (concat orderedCharts). c \<in> dom rend}"
  from assms have d1: "distinct keys1" and s1: "set keys1 = dom rend"
    and s2: "set keys2 = dom rend"
    by (simp_all add: rangeOrder_def)
  have f1: "filter (\<lambda>c. prefix ''istio/'' c \<and> c \<notin> ?seen) keys1
            = filter (\<lambda>c. prefix ''istio/'' c \<and> c \<notin> set (concat orderedCharts)) keys1"
    using s1 by (intro filter_cong) auto
  have f2: "filter (\<lambda>c. c \<notin> ?seen \<union> {c \<in> set keys1. prefix ''istio/'' c}) keys2
            = filter (\<lambda>c. \<not> prefix ''istio/'' c \<and> c \<notin> set (concat orderedCharts)) keys2"
    using s1 s2 by (intro filter_cong) auto
  have "getChartsInInstallationOrder rend keys1 keys2
        = filter (\<lambda>g. g \<noteq> []) (map (filter (\<lambda>c. c \<in> dom rend)) orderedCharts)
          @ map (\<lambda>c. [c]) (filter (\<lambda>c. prefix ''istio/'' c \<and> c \<notin> ?seen) keys1)
          @ map (\<lambda>c. [c])
              (filter (\<lambda>c. c \<notin> ?seen \<union> {c \<in> set keys1. prefix ''istio/'' c}) keys2)"
    unfolding getChartsInInstallationOrder_def
    by (simp only: orderedOuter_eq istioLoop_eq [OF d1] otherLoop_eq prod.case
        append_Nil Un_empty_left append_assoc)
  then show ?thesis
    unfolding installPlan_def by (simp only: f1 f2)
qed

lemma distinct_concat_orderedCharts: "distinct (concat orderedCharts)"
  by (simp add: orderedCharts_def)

lemma concat_filter_nonempty: "concat (filter (\<lambda>g. g \<noteq> []) gs) = concat gs"
  by (induction gs) auto

lemma concat_map_filter: "concat (map (filter P) gs) = filter P (concat gs)"
  by (induction gs) auto

lemma concat_map_single: "concat (map (\<lambda>c. [c]) xs) = xs"
  by (induction xs) auto

lemma concat_installPlan:
  "concat (installPlan rend keys1 keys2) =
     filter (\<lambda>c. c \<in> dom rend) (concat orderedCharts)
     @ filter (\<lambda>c. prefix ''istio/'' c \<and> c \<notin> set (concat orderedCharts)) keys1
     @ filter (\<lambda>c. \<not> prefix ''istio/'' c \<and> c \<notin> set (concat orderedCharts)) keys2"
  by (simp add: installPlan_def concat_filter_nonempty concat_map_filter concat_map_single)

lemma filter_distinct_single:
  assumes "distinct xs" and "{x \<in> set xs. P x} = {a}"
  shows "filter P xs = [a]"
proof -
  have d: "distinct (filter P xs)" using assms(1) by simp
  have s: "set (filter P xs) = {a}" using assms(2) by auto
  have "length (filter P xs) = 1"
    using distinct_card [OF d] s by simp
  then obtain b where "filter P xs = [b]"
    by (cases "filter P xs") auto
  with s show ?thesis by auto
qed

lemma dom_exampleRenderings:
  "dom exampleRenderings =
     {''istio'', ''istio/charts/kiali'', ''istio/charts/pilot'', ''istio/charts/mixer'',
      ''maistra-threescale/charts/foo''}"
  by (auto simp: exampleRenderings_def)

lemma example_plan:
  assumes "rangeOrder exampleRenderings keys1" and "rangeOrder exampleRenderings keys2"
  shows "installPlan exampleRenderings keys1 keys2 =
     [[''istio''], [''istio/charts/mixer'', ''istio/charts/pilot''], [''istio/charts/kiali''],
      [''maistra-threescale/charts/foo'']]"
proof -
  from assms have s1: "set keys1 = dom exampleRenderings"
    and d2: "distinct keys2" and s2: "set keys2 = dom exampleRenderings"
    by (simp_all add: rangeOrder_def)
  have a: "filter (\<lambda>g. g \<noteq> []) (map (filter (\<lambda>c. c \<in> dom exampleRenderings)) orderedCharts)
           = [[''istio''], [''istio/charts/mixer'', ''istio/charts/pilot''], [''istio/charts/kiali'']]"
    by (simp add: orderedCharts_def dom_exampleRenderings)
  have b: "filter (\<lambda>c. prefix ''istio/'' c \<and> c \<notin> set (concat orderedCharts)) keys1 = []"
    unfolding filter_empty_conv s1 dom_exampleRenderings
    by (simp add: orderedCharts_def)
  have "{c \<in> set keys2. \<not> prefix ''istio/'' c \<and> c \<notin> set (concat orderedCharts)}
        = {''maistra-threescale/charts/foo''}"
    unfolding s2 dom_exampleRenderings by (auto simp: orderedCharts_def)
  then have c: "filter (\<lambda>c. \<not> prefix ''istio/'' c \<and> c \<notin> set (concat orderedCharts)) keys2
           = [''maistra-threescale/charts/foo'']"
    using d2 by (rule filter_distinct_single [rotated])
  show ?thesis
    unfolding installPlan_def a b c by simp
qed

lemma rangeOrder_exampleKeys: "rangeOrder exampleRenderings exampleKeys"
  by (auto simp: rangeOrder_def exampleKeys_def dom_exampleRenderings)


lemma rangeOrder_exampleKeys': "rangeOrder exampleRenderings exampleKeys'"
  by (auto simp: rangeOrder_def exampleKeys'_def dom_exampleRenderings)

text \<open>
  Claim C6. Whatever order the two map iterations take, getChartsInInstallationOrder
  returns the predefined groups in their fixed order, filtered to the rendered charts and
  without empty groups, then each remaining chart with prefix \<^verbatim>\<open>istio/\<close> as a singleton
  group, then each chart still remaining as a singleton group. For the rend
  \<^verbatim>\<open>{istio, istio/charts/kiali, istio/charts/pilot, istio/charts/mixer,
  maistra-threescale/charts/foo}\<close> the plan is \<^verbatim>\<open>[istio]\<close>,
  \<^verbatim>\<open>[istio/charts/mixer, istio/charts/pilot]\<close>, \<^verbatim>\<open>[istio/charts/kiali]\<close>,
  \<^verbatim>\<open>[maistra-threescale/charts/foo]\<close>.
\<close>

theorem getChartsInInstallationOrder_plan:
  assumes "rangeOrder rend keys1" and "rangeOrder rend keys2"
    and "rangeOrder exampleRenderings ks1" and "rangeOrder exampleRenderings ks2"
  shows "getChartsInInstallationOrder rend keys1 keys2
           = installPlan rend keys1 keys2
       \<and> getChartsInInstallationOrder exampleRenderings ks1 ks2
           = [[''istio''], [''istio/charts/mixer'', ''istio/charts/pilot''],
              [''istio/charts/kiali''], [''maistra-threescale/charts/foo'']]"
  using getCharts_installPlan [OF assms(1,2)] getCharts_installPlan [OF assms(3,4)]
    example_plan [OF assms(3,4)]
  by simp

theorem getChartsInInstallationOrder_plan_witness:
  "rangeOrder exampleRenderings exampleKeys \<and> rangeOrder exampleRenderings exampleKeys'
   \<and> getChartsInInstallationOrder exampleRenderings exampleKeys exampleKeys'
       = installPlan exampleRenderings exampleKeys exampleKeys'
   \<and> getChartsInInstallationOrder exampleRenderings exampleKeys exampleKeys'
       = [[''istio''], [''istio/charts/mixer'', ''istio/charts/pilot''],
          [''istio/charts/kiali''], [''maistra-threescale/charts/foo'']]"
  using getChartsInInstallationOrder_plan
    [OF rangeOrder_exampleKeys rangeOrder_exampleKeys' rangeOrder_exampleKeys
        rangeOrder_exampleKeys']
    rangeOrder_exampleKeys rangeOrder_exampleKeys'
  by blast

text \<open>
  Claim C10. The groups returned by getChartsInInstallationOrder partition the keys of the
  rend: no chart occurs twice in the concatenation of the groups, the charts that
  occur are exactly the rendered ones, and no group is empty.
\<close>

theorem getChartsInInstallationOrder_partition:
  assumes "rangeOrder rend keys1" and "rangeOrder rend keys2"
  shows "distinct (concat (getChartsInInstallationOrder rend keys1 keys2))
       \<and> set (concat (getChartsInInstallationOrder rend keys1 keys2)) = dom rend
       \<and> [] \<notin> set (getChartsInInstallationOrder rend keys1 keys2)"
proof -
  from assms have d1: "distinct keys1" and s1: "set keys1 = dom rend"
    and d2: "distinct keys2" and s2: "set keys2 = dom rend"
    by (simp_all add: rangeOrder_def)
  note eq = getCharts_installPlan [OF assms]
  have "distinct (concat (installPlan rend keys1 keys2))"
    unfolding concat_installPlan
    using d1 d2 distinct_concat_orderedCharts by auto
  moreover have "set (concat (installPlan rend keys1 keys2)) = dom rend"
    unfolding concat_installPlan using s1 s2 by auto
  moreover have "[] \<notin> set (installPlan rend keys1 keys2)"
    by (auto simp: installPlan_def)
  ultimately show ?thesis by (simp add: eq)
qed

theorem getChartsInInstallationOrder_partition_witness:
  "rangeOrder exampleRenderings exampleKeys \<and> rangeOrder exampleRenderings exampleKeys'
   \<and> distinct (concat (getChartsInInstallationOrder exampleRenderings exampleKeys exampleKeys'))
   \<and> set (concat (getChartsInInstallationOrder exampleRenderings exampleKeys exampleKeys'))
       = {''istio'', ''istio/charts/kiali'', ''istio/charts/pilot'', ''istio/charts/mixer'',
          ''maistra-threescale/charts/foo''}
   \<and> [] \<notin> set (getChartsInInstallationOrder exampleRenderings exampleKeys exampleKeys')"
  using getChartsInInstallationOrder_partition
    [OF rangeOrder_exampleKeys rangeOrder_exampleKeys']
    rangeOrder_exampleKeys rangeOrder_exampleKeys'
  by (simp add: dom_exampleRenderings)

subsection \<open>mergeValues\<close>

lemma map_of_mergeValues:
  "distinct (map fst input) \<Longrightarrow>
   map_of (mergeValues base input) k = mergedEntry (map_of base k) (map_of input k)"
proof (induction input arbitrary: base)
  case Nil
  show ?case by (simp add: mergedEntry_def)
next
  case (Cons e input)
  obtain key v where e: "e = (key, v)" by (cases e)
  from Cons.prems e have notin: "map_of input key = None" and d: "distinct (map fst input)"
    by (auto simp: map_of_eq_None_iff)
  note IH = Cons.IH [OF d]
  show ?case
  proof (cases "k = key")
    case True
    have IH': "\<And>base. map_of (mergeValues base input) key
                 = mergedEntry (map_of base key) None"
      using IH True notin by simp
    show ?thesis
      unfolding e True
      by (simp add: IH' mergedEntry_def update_conv' split: option.splits val.splits)
  next
    case False
    show ?thesis
      unfolding e using False
      by (simp add: IH update_conv' split: option.splits val.splits)
  qed
qed

lemma getPath_update_other:
  "k \<noteq> key \<Longrightarrow> getPath (AList.update key v m) (k # path) = getPath m (k # path)"
  by (simp add: update_conv')

lemma getPath_scalar_nonempty: "getPath m path = Some x \<Longrightarrow> \<not> isMap x \<Longrightarrow> path \<noteq> []"
  by (cases path) (auto simp: isMap_def)

lemma getPath_mergeValues:
  "getPath base path = Some x \<Longrightarrow> \<not> isMap x \<Longrightarrow>
   getPath (mergeValues base input) path = Some x"
proof (induction base input arbitrary: path x rule: mergeValues.induct)
  case (1 base)
  then show ?case by simp
next
  case (2 base key v input)
  from "2.prems" obtain k rest where path: "path = k # rest"
    by (cases path) (auto simp: isMap_def)
  show ?case
  proof (cases "map_of base key")
    case None
    with "2.prems" path have "k \<noteq> key" by (auto split: option.splits)
    then have "getPath (AList.update key v base) path = Some x"
      using "2.prems"(1) path by (simp add: update_conv')
    from "2.IH"(1) [OF None this "2.prems"(2)] None show ?thesis by simp
  next
    case (Some b)
    show ?thesis
    proof (cases "\<exists>bm im. b = MapVal bm \<and> v = MapVal im")
      case False
      have eq: "mergeValues base ((key, v) # input) = mergeValues base input"
        using False Some by (auto split: val.splits)
      have "getPath (mergeValues base input) path = Some x"
      proof (cases b)
        case (StringVal s)
        from "2.IH"(2) [OF Some this "2.prems"] show ?thesis .
      next
        case (BoolVal s)
        from "2.IH"(3) [OF Some this "2.prems"] show ?thesis .
      next
        case (NumberVal s)
        from "2.IH"(4) [OF Some this "2.prems"] show ?thesis .
      next
        case (ArrayVal s)
        from "2.IH"(5) [OF Some this "2.prems"] show ?thesis .
      next
        case b: (MapVal bm)
        show ?thesis
        proof (cases v)
          case (StringVal s)
          from "2.IH"(6) [OF Some b this "2.prems"] show ?thesis .
        next
          case (BoolVal s)
          from "2.IH"(7) [OF Some b this "2.prems"] show ?thesis .
        next
          case (NumberVal s)
          from "2.IH"(8) [OF Some b this "2.prems"] show ?thesis .
        next
          case (ArrayVal s)
          from "2.IH"(9) [OF Some b this "2.prems"] show ?thesis .
        next
          case (MapVal im)
          with b False show ?thesis by simp
        qed
      qed
      with eq show ?thesis by simp
    next
      case True
      then obtain bm im where b: "b = MapVal bm" and v: "v = MapVal im" by blast
      let ?base' = "AList.update key (MapVal (mergeValues bm im)) base"
      have "getPath ?base' path = Some x"
      proof (cases "k = key")
        case False
        then show ?thesis using "2.prems"(1) path by (simp add: update_conv')
      next
        case True
        with "2.prems" path Some b have rest: "rest \<noteq> []" and sub: "getPath bm rest = Some x"
          by (auto simp: isMap_def split: if_splits)
        from "2.IH"(10) [OF Some b v sub "2.prems"(2)]
        have "getPath (mergeValues bm im) rest = Some x" .
        then show ?thesis using True path rest by (simp add: update_conv')
      qed
      from "2.IH"(11) [OF Some b v this "2.prems"(2)]
      show ?thesis using Some b v by simp
    qed
  qed
qed


text \<open>
  Claim C4. For an input map (distinct keys, visited in any order) the entry of
  \<^verbatim>\<open>mergeValues(base, input)\<close> under a key is: the base's entry when the input lacks the
  key; the input's value when the base lacks the key; for a key of both, the merge of
  the two values when both are maps, and the base's value otherwise. So at every depth a
  value of the base that is not a map is still there after the merge, and
  \<^verbatim>\<open>mergeValues({a:1, b:{x:1}}, {b:{x:2,y:2}, c:3}) = {a:1, b:{x:1,y:2}, c:3}\<close>.
\<close>

theorem mergeValues_base_wins:
  assumes "distinct (map fst input)"
  shows "map_of (mergeValues base input) key
           = mergedEntry (map_of base key) (map_of input key)
       \<and> (\<forall>path x. getPath base path = Some x \<and> \<not> isMap x
             \<longrightarrow> getPath (mergeValues base input) path = Some x)
       \<and> mergeValues exBase exInput
           = [(''a'', NumberVal 1),
              (''b'', MapVal [(''x'', NumberVal 1), (''y'', NumberVal 2)]),
              (''c'', NumberVal 3)]"
proof (intro conjI allI impI)
  show "map_of (mergeValues base input) key
          = mergedEntry (map_of base key) (map_of input key)"
    using assms by (rule map_of_mergeValues)
next
  fix path x
  assume "getPath base path = Some x \<and> \<not> isMap x"
  then show "getPath (mergeValues base input) path = Some x"
    by (simp add: getPath_mergeValues)
next
  show "mergeValues exBase exInput
           = [(''a'', NumberVal 1),
              (''b'', MapVal [(''x'', NumberVal 1), (''y'', NumberVal 2)]),
              (''c'', NumberVal 3)]"
    by (simp add: exBase_def exInput_def)
qed

theorem mergeValues_base_wins_witness:
  "distinct (map fst exInput)
   \<and> map_of (mergeValues exBase exInput) ''b''
       = Some (MapVal [(''x'', NumberVal 1), (''y'', NumberVal 2)])
   \<and> map_of (mergeValues exBase exInput) ''c'' = Some (NumberVal 3)
   \<and> getPath exBase [''b'', ''x''] = Some (NumberVal 1)
   \<and> getPath (mergeValues exBase exInput) [''b'', ''x''] = Some (NumberVal 1)"
proof -
  have d: "distinct (map fst exInput)"
    by (simp add: exInput_def)
  have p: "getPath exBase [''b'', ''x''] = Some (NumberVal 1) \<and> \<not> isMap (NumberVal 1)"
    by (simp add: exBase_def isMap_def)
  have b: "mergedEntry (map_of exBase ''b'') (map_of exInput ''b'')
             = Some (MapVal [(''x'', NumberVal 1), (''y'', NumberVal 2)])"
    by (simp add: mergedEntry_def exBase_def exInput_def)
  have c: "mergedEntry (map_of exBase ''c'') (map_of exInput ''c'') = Some (NumberVal 3)"
    by (simp add: mergedEntry_def exBase_def exInput_def)
  show ?thesis
    using mergeValues_base_wins [OF d, of exBase "''b''"]
      mergeValues_base_wins [OF d, of exBase "''c''"] d p b c
    by (metis (no_types, lifting))
qed

subsection \<open>Template resolution\<close>

text \<open>
  A call of recursivelyApplyTemplates inside the two-template cycle, with nothing visited
  yet, has no result: each call loads the next template and calls itself before it
  inserts its own name into \<^verbatim>\<open>visited\<close>, so the test \<^verbatim>\<open>visited.Has\<close> never sees a name
  of the chain.
\<close>

lemma cyclicTemplates_no_result:
  assumes "recursivelyApplyTemplates env smcp version visited = Some y"
  shows "\<not> (env = cyclicTemplates \<and> Template smcp \<in> {''A'', ''B''} \<and> visited = {})"
proof (rule recursivelyApplyTemplates.raw_induct
    [where P = "\<lambda>env smcp version visited y.
        \<not> (env = cyclicTemplates \<and> Template smcp \<in> {''A'', ''B''} \<and> visited = {})"])
  show "recursivelyApplyTemplates env smcp version visited = Some y" by fact
next
  fix rec :: "templateEnv \<Rightarrow> ControlPlaneSpec \<Rightarrow> string \<Rightarrow> string set
    \<Rightarrow> ((ControlPlaneSpec \<times> error option) \<times> string set) option"
  fix env smcp version visited y
  assume IH: "\<And>env smcp version visited y. rec env smcp version visited = Some y \<Longrightarrow>
        \<not> (env = cyclicTemplates \<and> Template smcp \<in> {''A'', ''B''} \<and> visited = {})"
  assume body: "(if Template smcp = [] then Some ((smcp, None), visited)
      else if Template smcp \<in> visited
      then Some ((smcp, Some (Errorf ''SMCP templates form cyclic dependency. Cannot proceed'')),
                 visited)
      else
        (case getSMCPTemplate env (Template smcp) version of
           Inl err \<Rightarrow> Some ((smcp, Some err), visited)
         | Inr template \<Rightarrow>
             do {
               res \<leftarrow> rec env template version visited;
               (case res of
                  ((template', Some err), visited') \<Rightarrow> Some ((smcp, Some err), visited')
                | ((template', None), visited') \<Rightarrow>
                    Some ((smcp\<lparr>Istio := NewHelmValues
                                  (mergeValues (GetContent (Istio smcp))
                                     (GetContent (Istio template'))),
                                ThreeScale := NewHelmValues
                                  (mergeValues (GetContent (ThreeScale smcp))
                                     (GetContent (ThreeScale template')))\<rparr>,
                           None),
                          insert (Template smcp) visited'))
             })) = Some y"
  show "\<not> (env = cyclicTemplates \<and> Template smcp \<in> {''A'', ''B''} \<and> visited = {})"
  proof
    assume a: "env = cyclicTemplates \<and> Template smcp \<in> {''A'', ''B''} \<and> visited = {}"
    then obtain t where t: "getSMCPTemplate env (Template smcp) version = Inr t"
       and tt: "Template t \<in> {''A'', ''B''}"
      by (auto simp: getSMCPTemplate_def cyclicTemplates_def specWithTemplate_def)
    from a have ne: "Template smcp \<noteq> []" by auto
    from body a t ne obtain res where "rec env t version visited = Some res"
      by (auto simp: bind_eq_Some_conv)
    from IH [OF this] a tt show False by simp
  qed
qed

text \<open>
  Claim C2 (fails in the code). The claim says that resolving the chain A, B, A ends
  with a cycle error. In the code the call does not return: its result is \<open>None\<close>.
\<close>

theorem recursivelyApplyTemplates_cycle_diverges:
  "recursivelyApplyTemplates cyclicTemplates (specWithTemplate ''A'') ''v1.1'' {} = None"
proof (cases "recursivelyApplyTemplates cyclicTemplates (specWithTemplate ''A'') ''v1.1'' {}")
  case None
  then show ?thesis .
next
  case (Some y)
  from cyclicTemplates_no_result [OF this] show ?thesis
    by (simp add: specWithTemplate_def)
qed

lemma getSMCPTemplate_pinning:
  "getSMCPTemplate pinningTemplates ''default'' v = Inr taggedTemplate"
  by (simp add: getSMCPTemplate_def pinningTemplates_def)

lemma resolve_tagged:
  "recursivelyApplyTemplates pinningTemplates taggedTemplate v visited
     = Some ((taggedTemplate, None), visited)"
  by (subst recursivelyApplyTemplates.simps) (simp add: taggedTemplate_def)

lemma resolve_userSpec:
  "recursivelyApplyTemplates pinningTemplates (userSpec\<lparr>Template := DefaultTemplate\<rparr>) ''v1.1'' {}
     = Some ((resolvedUserSpec, None), {''default''})"
  apply (subst recursivelyApplyTemplates.simps)
  apply (simp add: DefaultTemplate_def userSpec_def getSMCPTemplate_pinning resolve_tagged)
  apply (simp add: taggedTemplate_def resolvedUserSpec_def GetContent_def NewHelmValues_def)
  done

lemma resolve_pinnedSpec:
  "recursivelyApplyTemplates pinningTemplates (pinnedSpec\<lparr>Template := DefaultTemplate\<rparr>) ''v1.1'' {}
     = Some ((resolvedPinnedSpec, None), {''default''})"
  apply (subst recursivelyApplyTemplates.simps)
  apply (simp add: DefaultTemplate_def pinnedSpec_def getSMCPTemplate_pinning resolve_tagged)
  apply (simp add: taggedTemplate_def resolvedPinnedSpec_def GetContent_def NewHelmValues_def)
  done

text \<open>
  Claim C5 as stated fails: the claim takes the pinned tag from the resolved values, the
  code from the spec before its templates are resolved. Here the spec pins nothing, the
  default template pins \<^verbatim>\<open>global.tag\<close>, the resolved values carry the tag, and the image
  strategy is called all the same.
\<close>

theorem applyTemplates_template_pins_tag_counterexample:
  "GetString (Istio userSpec) [''global'', ''tag''] = ''''
   \<and> GetString (Istio resolvedUserSpec) [''global'', ''tag''] = ''1.1.0''
   \<and> recursivelyApplyTemplates pinningTemplates (userSpec\<lparr>Template := DefaultTemplate\<rparr>)
         ''v1.1'' {}
       = Some ((resolvedUserSpec, None), {''default''})
   \<and> applyTemplates pinningTemplates [] noOAuthProxy userSpec ''v1.1''
       = Some (resolvedUserSpec, None, noOAuthProxy,
               [CallSetImageValues ''v1.1'' resolvedUserSpec])"
proof -
  have a: "GetString (Istio userSpec) [''global'', ''tag''] = ''''"
    and b: "GetString (Istio userSpec) [''global'', ''hub''] = ''''"
    by (simp_all add: GetString_def GetContent_def userSpec_def)
  have c: "GetString (Istio resolvedUserSpec) [''global'', ''tag''] = ''1.1.0''"
    by (simp add: GetString_def GetContent_def resolvedUserSpec_def)
  have t: "Template userSpec = ''''" by (simp add: userSpec_def)
  have i: "Istio (userSpec\<lparr>Template := DefaultTemplate\<rparr>) = Istio userSpec" by simp
  have d: "applyDisconnectedSettings pinningTemplates [] noOAuthProxy resolvedUserSpec ''v1.1''
            = (resolvedUserSpec, None, noOAuthProxy, [CallSetImageValues ''v1.1'' resolvedUserSpec])"
    by (simp add: applyDisconnectedSettings_def updateOauthProxyConfig_def pinningTemplates_def
        noOAuthProxy_def)
  have "applyTemplates pinningTemplates [] noOAuthProxy userSpec ''v1.1''
       = Some (resolvedUserSpec, None, noOAuthProxy,
               [CallSetImageValues ''v1.1'' resolvedUserSpec])"
    unfolding applyTemplates_def
    by (simp add: t i a b resolve_userSpec d del: GetString_def)
  with a c resolve_userSpec show ?thesis by simp
qed

text \<open>
  Claim C5, amended. Let the template resolution of the spec (with the default template
  name put in when none is given) return. If the spec itself, before resolution, has a
  non-empty \<^verbatim>\<open>global.tag\<close> or \<^verbatim>\<open>global.hub\<close>, applyTemplates returns what the
  resolution returned and calls nothing: the log and the oauth-proxy configuration are
  as before. If the spec has neither and the resolution succeeded, applyTemplates
  returns the result of applyDisconnectedSettings on the resolved spec, and the first
  call it makes is the strategy's SetImageValues on that resolved spec.
\<close>

theorem applyTemplates_disconnected_settings:
  assumes "recursivelyApplyTemplates env
             (if Template smcpSpec = '''' then smcpSpec\<lparr>Template := DefaultTemplate\<rparr>
              else smcpSpec) version {}
           = Some ((spec, err), visited)"
  shows "(GetString (Istio smcpSpec) [''global'', ''tag''] \<noteq> ''''
            \<or> GetString (Istio smcpSpec) [''global'', ''hub''] \<noteq> ''''
          \<longrightarrow> applyTemplates env log config smcpSpec version = Some (spec, err, config, log))
       \<and> (GetString (Istio smcpSpec) [''global'', ''tag''] = ''''
            \<and> GetString (Istio smcpSpec) [''global'', ''hub''] = '''' \<and> err = None
          \<longrightarrow> applyTemplates env log config smcpSpec version
                = Some (applyDisconnectedSettings env log config spec version)
              \<and> (\<exists>rest. snd (snd (snd (applyDisconnectedSettings env log config spec version)))
                          = log @ CallSetImageValues version spec # rest))"
proof -
  have i: "Istio (if Template smcpSpec = '''' then smcpSpec\<lparr>Template := DefaultTemplate\<rparr>
              else smcpSpec) = Istio smcpSpec"
    by simp
  have log: "\<exists>rest. snd (snd (snd (applyDisconnectedSettings env log config spec version)))
                          = log @ CallSetImageValues version spec # rest"
    by (auto simp: applyDisconnectedSettings_def updateOauthProxyConfig_def Let_def
        split: prod.splits option.splits)
  show ?thesis
    unfolding applyTemplates_def Let_def i
    using assms log by auto
qed


theorem applyTemplates_disconnected_settings_witness:
  "recursivelyApplyTemplates pinningTemplates
       (if Template pinnedSpec = '''' then pinnedSpec\<lparr>Template := DefaultTemplate\<rparr>
        else pinnedSpec) ''v1.1'' {}
     = Some ((resolvedPinnedSpec, None), {''default''})
   \<and> GetString (Istio pinnedSpec) [''global'', ''hub''] = ''registry.local/maistra''
   \<and> applyTemplates pinningTemplates [] noOAuthProxy pinnedSpec ''v1.1''
       = Some (resolvedPinnedSpec, None, noOAuthProxy, [])
   \<and> recursivelyApplyTemplates pinningTemplates
       (if Template userSpec = '''' then userSpec\<lparr>Template := DefaultTemplate\<rparr>
        else userSpec) ''v1.1'' {}
     = Some ((resolvedUserSpec, None), {''default''})
   \<and> GetString (Istio userSpec) [''global'', ''tag''] = ''''
   \<and> GetString (Istio userSpec) [''global'', ''hub''] = ''''
   \<and> applyTemplates pinningTemplates [] noOAuthProxy userSpec ''v1.1''
       = Some (applyDisconnectedSettings pinningTemplates [] noOAuthProxy resolvedUserSpec
                 ''v1.1'')"
proof -
  have p: "recursivelyApplyTemplates pinningTemplates
       (if Template pinnedSpec = '''' then pinnedSpec\<lparr>Template := DefaultTemplate\<rparr>
        else pinnedSpec) ''v1.1'' {}
     = Some ((resolvedPinnedSpec, None), {''default''})"
    using resolve_pinnedSpec by (simp add: pinnedSpec_def)
  have u: "recursivelyApplyTemplates pinningTemplates
       (if Template userSpec = '''' then userSpec\<lparr>Template := DefaultTemplate\<rparr>
        else userSpec) ''v1.1'' {}
     = Some ((resolvedUserSpec, None), {''default''})"
    using resolve_userSpec by (simp add: userSpec_def)
  have hub: "GetString (Istio pinnedSpec) [''global'', ''hub''] = ''registry.local/maistra''"
    by (simp add: GetString_def GetContent_def pinnedSpec_def)
  have a: "GetString (Istio userSpec) [''global'', ''tag''] = ''''"
    and b: "GetString (Istio userSpec) [''global'', ''hub''] = ''''"
    by (simp_all add: GetString_def GetContent_def userSpec_def)
  show ?thesis
    using applyTemplates_disconnected_settings [OF p, of "[]" noOAuthProxy]
      applyTemplates_disconnected_settings [OF u, of "[]" noOAuthProxy]
      p u hub a b
    by simp
qed

subsection \<open>Reconciliation: conditions, status posting and the deferred functions\<close>

lemma pilot_plan:
  "getChartsInInstallationOrder [''istio/charts/pilot'' \<mapsto> m] [''istio/charts/pilot'']
     [''istio/charts/pilot''] = [[''istio/charts/pilot'']]"
  by (simp add: getChartsInInstallationOrder_def orderedCharts_def HasPrefix_def)

lemma pilot_groups:
  assumes "renderings r = Some [''istio/charts/pilot'' \<mapsto> m]"
    and "rangeKeys env = (\<lambda>log rendered. ([''istio/charts/pilot''], [''istio/charts/pilot'']))"
  shows "chartGroups env r = [[''istio/charts/pilot'']]"
  using assms by (simp add: chartGroups_def pilot_plan)

lemma Reconcile_after_body:
  assumes "CondStatus (GetCondition (Status r) ConditionTypeReconciled) = ConditionStatusFalse"
    and "reconcileBody env (startOutcome r) r = (out, r1)"
    and "postReconciliationStatus env
           (if renderings r = None \<and> outErr out \<noteq> None
            then r1\<lparr>Status := updateControlPlaneConditions env (Status r1) (outErr out),
                    waitForComponents := {},
                    calls := calls r1 @ [CallUpdateControlPlaneConditions (outErr out)]\<rparr>
            else r1)
           (outReason out) (outMessage out) (outErr out) = (statusErr, r3)"
  shows "Reconcile env r
         = ((case statusErr of
               Some e \<Rightarrow> (if outErr out = None then Some e else outErr out)
             | None \<Rightarrow> outErr out),
            if outComplete out then r3\<lparr>calls := calls r3 @ [CallSleep]\<rparr> else r3)"
  using assms by (simp add: Reconcile_def Let_def)

lemma installing_False:
  "Status r = installingStatus \<Longrightarrow>
   CondStatus (GetCondition (Status r) ConditionTypeReconciled) = ConditionStatusFalse"
  by (simp add: GetCondition_def getCond_def installingStatus_def)

lemma body_resume_probe_failure:
  "reconcileBody failingProbeCluster (startOutcome waitingReconciler) waitingReconciler
     = (\<lparr>outReason = ''ProbeError'', outMessage = ''Error checking component readiness'',
         outErr = Some (Wrap probeFailure ''Error checking component readiness''),
         outComplete = False\<rparr>,
        waitingReconciler\<lparr>calls := [CallCalculateComponentReadiness {''pilot''}]\<rparr>)"
  by (simp add: reconcileBody_def andThen_def resumePhase_def Let_def
      failingProbeCluster_def waitingReconciler_def renderedReconciler_def
      ConditionReasonProbeError_def)

lemma getCond_setCond: "CondType c = t \<Longrightarrow> getCond (setCond cs c) t = c"
proof (induction cs)
  case Nil
  then show ?case by (simp add: getCond_def setCond_def)
next
  case (Cons d cs)
  then show ?case
    by (auto simp: getCond_def setCond_def split: if_splits option.splits)
qed

lemma CondType_getCond: "CondType (getCond cs t) = t"
  by (auto simp: getCond_def find_Some_iff split: option.splits)

lemma getCond_setCond_same:
  "getCond (setCond cs (getCond cs t\<lparr>Reason := rsn, Message := msg\<rparr>)) t
     = getCond cs t\<lparr>Reason := rsn, Message := msg\<rparr>"
  by (rule getCond_setCond) (simp add: CondType_getCond)

lemma PostStatus_Status: "Status (snd (PostStatus env r)) = Status r"
  by (simp add: PostStatus_def Let_def split: option.splits)

lemma PostStatus_calm:
  assumes "\<And>log. getInstance env log = None" and "\<And>log s. patchStatus env log s = None"
  shows "fst (PostStatus env r) = None"
  using assms by (simp add: PostStatus_def Let_def)

lemma conditionUpdates_append:
  "conditionUpdates (xs @ ys) = conditionUpdates xs @ conditionUpdates ys"
  by (induction xs rule: conditionUpdates.induct) simp_all

lemma PostStatus_keeps:
  "waitForComponents (snd (PostStatus env r)) = waitForComponents r
   \<and> conditionUpdates (calls (snd (PostStatus env r))) = conditionUpdates (calls r)"
  by (simp add: PostStatus_def Let_def conditionUpdates_append split: option.splits)

lemma postReconciliationStatus_keeps:
  "waitForComponents (snd (postReconciliationStatus env r rsn msg e)) = waitForComponents r
   \<and> conditionUpdates (calls (snd (postReconciliationStatus env r rsn msg e)))
       = conditionUpdates (calls r)"
  by (simp add: postReconciliationStatus_def Let_def Event_def PostStatus_keeps
      conditionUpdates_append split: option.splits prod.splits)

lemma postReconciliationStatus_calm:
  assumes "\<And>log s. updateReadinessStatus env log s = (s, None)"
    and "\<And>log. getInstance env log = None" and "\<And>log s. patchStatus env log s = None"
  shows "fst (postReconciliationStatus env r rsn msg e) = None
       \<and> Reason (GetCondition (Status (snd (postReconciliationStatus env r rsn msg e)))
            ConditionTypeReconciled) = rsn"
  using assms(1)
  by (cases e)
     (simp_all add: postReconciliationStatus_def Let_def PostStatus_Status
        PostStatus_calm [OF assms(2,3)] GetCondition_def SetCondition_def getCond_setCond_same
        Event_def)

lemma failingProbeCluster_calm:
  "updateReadinessStatus failingProbeCluster log s = (s, None)"
  "getInstance failingProbeCluster log = None"
  "patchStatus failingProbeCluster log s = None"
  by (simp_all add: failingProbeCluster_def calmCluster_def)

lemma Reconcile_resume_probe_failure:
  "\<exists>r3. Reconcile failingProbeCluster waitingReconciler
          = (Some (Wrap probeFailure ''Error checking component readiness''), r3)
     \<and> Reason (GetCondition (Status r3) ConditionTypeReconciled) = ''ProbeError''
     \<and> waitForComponents r3 = {''pilot''}
     \<and> conditionUpdates (calls r3) = []"
proof -
  let ?r1 = "waitingReconciler\<lparr>calls := [CallCalculateComponentReadiness {''pilot''}]\<rparr>"
  let ?e = "Some (Wrap probeFailure ''Error checking component readiness'')"
  let ?post = "postReconciliationStatus failingProbeCluster ?r1
       ''ProbeError'' ''Error checking component readiness'' ?e"
  have c: "CondStatus (GetCondition (Status waitingReconciler) ConditionTypeReconciled)
             = ConditionStatusFalse"
    by (rule installing_False) (simp add: waitingReconciler_def renderedReconciler_def)
  have n: "renderings waitingReconciler \<noteq> None"
    by (simp add: waitingReconciler_def renderedReconciler_def)
  have p: "?post = (None, snd ?post)"
    using postReconciliationStatus_calm [of failingProbeCluster ?r1 "''ProbeError''"
        "''Error checking component readiness''" ?e]
    by (simp add: failingProbeCluster_calm prod_eq_iff)
  have q: "Reason (GetCondition (Status (snd ?post)) ConditionTypeReconciled) = ''ProbeError''"
    using postReconciliationStatus_calm [of failingProbeCluster ?r1 "''ProbeError''"
        "''Error checking component readiness''" ?e]
    by (simp add: failingProbeCluster_calm)
  have k: "waitForComponents (snd ?post) = {''pilot''}"
      "conditionUpdates (calls (snd ?post)) = []"
    using postReconciliationStatus_keeps [of failingProbeCluster ?r1 "''ProbeError''"
        "''Error checking component readiness''" ?e]
    by (simp_all add: waitingReconciler_def)
  have "Reconcile failingProbeCluster waitingReconciler = (?e, snd ?post)"
    using Reconcile_after_body [OF c body_resume_probe_failure, of None "snd ?post"] n p
    by simp
  with q k show ?thesis by blast
qed

lemma body_install_probe_failure:
  "\<exists>msg r1. reconcileBody failingProbeCluster (startOutcome renderedReconciler) renderedReconciler
     = (\<lparr>outReason = ''PausingInstall'', outMessage = msg, outErr = None,
         outComplete = False\<rparr>, r1)
     \<and> Instance r1 = exampleInstance \<and> Status r1 = installingStatus
     \<and> renderings r1 \<noteq> None \<and> waitForComponents r1 = {''pilot''}
     \<and> conditionUpdates (calls r1) = []"
  by (simp add: reconcileBody_def andThen_def Let_def paused_def pauseReconciliation_def
      Event_def isUpdating_def pilot_groups [where m = "[''deployment'']"]
      componentFromChartName_def afterLast_def
      failingProbeCluster_def calmCluster_def renderedReconciler_def exampleInstance_def
      installingStatus_def ConditionReasonPausingInstall_def)

lemma Reconcile_install_probe_failure:
  "\<exists>r3. Reconcile failingProbeCluster renderedReconciler = (None, r3)
     \<and> Reason (GetCondition (Status r3) ConditionTypeReconciled) = ''PausingInstall''
     \<and> waitForComponents r3 = {''pilot''}"
proof -
  from body_install_probe_failure obtain msg r1 where
    b: "reconcileBody failingProbeCluster (startOutcome renderedReconciler) renderedReconciler
     = (\<lparr>outReason = ''PausingInstall'', outMessage = msg, outErr = None,
         outComplete = False\<rparr>, r1)"
    and w: "waitForComponents r1 = {''pilot''}"
    by blast
  let ?post = "postReconciliationStatus failingProbeCluster r1 ''PausingInstall'' msg None"
  have c: "CondStatus (GetCondition (Status renderedReconciler) ConditionTypeReconciled)
             = ConditionStatusFalse"
    by (rule installing_False) (simp add: renderedReconciler_def)
  have p: "?post = (None, snd ?post)"
    using postReconciliationStatus_calm [of failingProbeCluster r1 "''PausingInstall''" msg None]
    by (simp add: failingProbeCluster_calm prod_eq_iff)
  have q: "Reason (GetCondition (Status (snd ?post)) ConditionTypeReconciled) = ''PausingInstall''"
    using postReconciliationStatus_calm [of failingProbeCluster r1 "''PausingInstall''" msg None]
    by (simp add: failingProbeCluster_calm)
  have k: "waitForComponents (snd ?post) = {''pilot''}"
    using postReconciliationStatus_keeps [of failingProbeCluster r1] w by simp
  have "Reconcile failingProbeCluster renderedReconciler = (None, snd ?post)"
    using Reconcile_after_body [OF c b, of None "snd ?post"] p by simp
  with q k show ?thesis by blast
qed


subsection \<open>PostStatus\<close>

text \<open>
  Claim C9 as stated fails: when the working status has changed and the instance is no
  longer there, the fetch returns not-found, PostStatus returns nil, and the only call
  made is the fetch. There is no patch attempt.
\<close>

theorem PostStatus_refetch_not_found_counterexample:
  "Status postingReconciler \<noteq> InstanceStatus (Instance postingReconciler)
   \<and> PostStatus deletedInstanceCluster postingReconciler
       = (None, postingReconciler\<lparr>calls := [CallGetInstance ''basic-install'' ''istio-system'']\<rparr>)"
  by (simp add: PostStatus_def postingReconciler_def deletedInstanceCluster_def calmCluster_def
      exampleInstance_def changedStatus_def installingStatus_def)

text \<open>
  Claim C9, amended. When the working status equals the status of the instance,
  PostStatus returns nil and calls nothing. Otherwise it fetches the instance once and
  then makes exactly one patch attempt if the fetch succeeded, and none if it failed;
  nothing else of the reconciler changes. It returns nil when the fetch fails with
  not-found or gone, and when the fetch succeeds and the patch fails with not-found or
  gone.
\<close>

theorem PostStatus_writes:
  "(Status r = InstanceStatus (Instance r) \<longrightarrow> PostStatus env r = (None, r))
   \<and> (Status r \<noteq> InstanceStatus (Instance r) \<longrightarrow>
        snd (PostStatus env r)
          = r\<lparr>calls := calls r
                 @ [CallGetInstance (InstanceName (Instance r)) (InstanceNamespace (Instance r))]
                 @ (if getInstance env (calls r) = None then [CallPatchStatus (Status r)]
                    else [])\<rparr>
        \<and> (\<forall>err. getInstance env (calls r) = Some err \<and> (IsGone err \<or> IsNotFound err)
              \<longrightarrow> fst (PostStatus env r) = None)
        \<and> (\<forall>err. getInstance env (calls r) = None
                \<and> patchStatus env
                     (calls r @ [CallGetInstance (InstanceName (Instance r))
                                   (InstanceNamespace (Instance r))])
                     (Status r) = Some err
                \<and> (IsGone err \<or> IsNotFound err)
              \<longrightarrow> fst (PostStatus env r) = None))"
  by (auto simp: PostStatus_def Let_def split: option.splits)

theorem PostStatus_writes_witness:
  "Status renderedReconciler = InstanceStatus (Instance renderedReconciler)
   \<and> PostStatus calmCluster renderedReconciler = (None, renderedReconciler)
   \<and> Status postingReconciler \<noteq> InstanceStatus (Instance postingReconciler)
   \<and> calls (snd (PostStatus calmCluster postingReconciler))
       = [CallGetInstance ''basic-install'' ''istio-system'', CallPatchStatus changedStatus]
   \<and> calls (snd (PostStatus deletedInstanceCluster postingReconciler))
       = [CallGetInstance ''basic-install'' ''istio-system'']
   \<and> fst (PostStatus deletedInstanceCluster postingReconciler) = None
   \<and> fst (PostStatus goneOnPatchCluster postingReconciler) = None"
proof -
  have same: "Status renderedReconciler = InstanceStatus (Instance renderedReconciler)"
    by (simp add: renderedReconciler_def exampleInstance_def)
  have changed: "Status postingReconciler \<noteq> InstanceStatus (Instance postingReconciler)"
    by (simp add: postingReconciler_def exampleInstance_def changedStatus_def
        installingStatus_def)
  have fields: "calls postingReconciler = []" "Status postingReconciler = changedStatus"
    "InstanceName (Instance postingReconciler) = ''basic-install''"
    "InstanceNamespace (Instance postingReconciler) = ''istio-system''"
    by (simp_all add: postingReconciler_def exampleInstance_def)
  have calm: "getInstance calmCluster [] = None"
    by (simp add: calmCluster_def)
  have deleted: "getInstance deletedInstanceCluster []
      = Some (StatusError StatusReasonNotFound ''servicemeshcontrolplane not found'')"
    by (simp add: deletedInstanceCluster_def)
  have gone: "getInstance goneOnPatchCluster [] = None"
    "patchStatus goneOnPatchCluster [CallGetInstance ''basic-install'' ''istio-system'']
       changedStatus
      = Some (StatusError StatusReasonGone ''servicemeshcontrolplane is gone'')"
    by (simp_all add: goneOnPatchCluster_def calmCluster_def)
  show ?thesis
    using PostStatus_writes [of renderedReconciler calmCluster]
      PostStatus_writes [of postingReconciler calmCluster]
      PostStatus_writes [of postingReconciler deletedInstanceCluster]
      PostStatus_writes [of postingReconciler goneOnPatchCluster]
      same changed calm deleted gone
    by (simp add: fields)
qed

subsection \<open>Reconcile\<close>

text \<open>
  Claim C3 (fails in the code). The claim says that a failed inspection of the live state
  aborts the cycle with reason ProbeError at both places where readiness is computed.
  When the cycle resumes with a wait set the code does so. After installing a chart
  group it does not: with the chart \<^verbatim>\<open>istio/charts/pilot\<close> applied and the inspection
  failing, Reconcile returns nil and the Reconciled condition gets the reason
  PausingInstall, the same as for a component that is not ready yet.
\<close>

theorem Reconcile_probe_failure_after_install:
  "fst (Reconcile failingProbeCluster renderedReconciler) = None
   \<and> Reason (GetCondition (Status (snd (Reconcile failingProbeCluster renderedReconciler)))
        ConditionTypeReconciled) = ''PausingInstall''
   \<and> fst (Reconcile failingProbeCluster waitingReconciler)
       = Some (Wrap probeFailure ''Error checking component readiness'')
   \<and> Reason (GetCondition (Status (snd (Reconcile failingProbeCluster waitingReconciler)))
        ConditionTypeReconciled) = ''ProbeError''"
proof -
  from Reconcile_install_probe_failure obtain r3 where
    a: "Reconcile failingProbeCluster renderedReconciler = (None, r3)"
    and b: "Reason (GetCondition (Status r3) ConditionTypeReconciled) = ''PausingInstall''"
    by blast
  from Reconcile_resume_probe_failure obtain r3' where
    c: "Reconcile failingProbeCluster waitingReconciler
          = (Some (Wrap probeFailure ''Error checking component readiness''), r3')"
    and d: "Reason (GetCondition (Status r3') ConditionTypeReconciled) = ''ProbeError''"
    by blast
  show ?thesis
    unfolding a c fst_conv snd_conv using b d by (intro conjI refl)
qed




end
